theory Spec2Isabelle
  imports Complex_Main "HOL-Library.Word"
begin

unbundle bit_operations_syntax

section \<open>JavaScript values\<close>

text \<open>
  The biometric core is TypeScript. A JavaScript number is modelled as a
  \<^typ>\<open>real\<close>; a property that may be \<^verbatim>\<open>undefined\<close> is an \<^typ>\<open>'a option\<close>. The
  centring and quality checks only compare quantities with thresholds, and their
  arithmetic is exact in the model. The FaceId is a hash of decimal digits and depends on
  the last bit of every feature, so there each arithmetic step is rounded to a double as
  IEEE 754 prescribes (function \<open>fl\<close> below). The only non-finite values the modelled code
  can produce come from the two divisions by the image size in \<^verbatim>\<open>isFaceCentered\<close>;
  they are kept apart in the type \<open>jsnum\<close> below, because HOL's \<open>x / 0 = 0\<close> is not
  what JavaScript computes.
\<close>

definition truthy :: "real option \<Rightarrow> bool" where
  \<comment> \<open>a numeric property is falsy when it is \<^verbatim>\<open>undefined\<close> or \<^verbatim>\<open>0\<close>\<close>
  "truthy v = (case v of None \<Rightarrow> False | Some x \<Rightarrow> x \<noteq> 0)"

definition js_or :: "real option \<Rightarrow> real option \<Rightarrow> real option" where
  \<comment> \<open>\<^verbatim>\<open>a || b\<close> on numeric properties\<close>
  "js_or a b = (if truthy a then a else b)"

definition num_or :: "real option \<Rightarrow> real \<Rightarrow> real" where
  \<comment> \<open>\<^verbatim>\<open>a || d\<close> with a numeric literal \<^verbatim>\<open>d\<close> as the default\<close>
  "num_or a d = (case a of None \<Rightarrow> d | Some x \<Rightarrow> if x = 0 then d else x)"

datatype jsnum = Fin real | PInf | NInf | NaN

definition js_div :: "real \<Rightarrow> real \<Rightarrow> jsnum" where
  \<comment> \<open>\<^verbatim>\<open>a / b\<close> on finite numbers; the zero of the model is \<^verbatim>\<open>+0\<close>\<close>
  "js_div a b =
     (if b \<noteq> 0 then Fin (a / b)
      else if 0 < a then PInf else if a < 0 then NInf else NaN)"

fun js_times100 :: "jsnum \<Rightarrow> jsnum" where
  "js_times100 (Fin x) = Fin (x * 100)"
| "js_times100 PInf = PInf"
| "js_times100 NInf = NInf"
| "js_times100 NaN = NaN"

fun js_abs_le :: "jsnum \<Rightarrow> real \<Rightarrow> bool" where
  \<comment> \<open>\<^verbatim>\<open>Math.abs(v) <= t\<close>\<close>
  "js_abs_le (Fin x) t = (\<bar>x\<bar> \<le> t)"
| "js_abs_le PInf t = False"
| "js_abs_le NInf t = False"
| "js_abs_le NaN t = False"

fun js_gt :: "jsnum \<Rightarrow> real \<Rightarrow> bool" where
  \<comment> \<open>\<^verbatim>\<open>v > t\<close>\<close>
  "js_gt (Fin x) t = (t < x)"
| "js_gt PInf t = True"
| "js_gt NInf t = False"
| "js_gt NaN t = False"

fun js_lt :: "jsnum \<Rightarrow> real \<Rightarrow> bool" where
  \<comment> \<open>\<^verbatim>\<open>v < t\<close>\<close>
  "js_lt (Fin x) t = (x < t)"
| "js_lt PInf t = False"
| "js_lt NInf t = True"
| "js_lt NaN t = False"

section \<open>The face observation (interface \<^verbatim>\<open>FaceData\<close> of utils/faceRecognition)\<close>

record point =
  pt_x :: "real option"
  pt_y :: "real option"

record extent =
  ext_width :: "real option"
  ext_height :: "real option"

text \<open>
  \<^verbatim>\<open>frame\<close> and \<^verbatim>\<open>bounds\<close> are read through the same property names
  (\<^verbatim>\<open>left, top, width, height, origin, size\<close>), so one record serves both.
\<close>

record box =
  box_left :: "real option"
  box_top :: "real option"
  box_width :: "real option"
  box_height :: "real option"
  box_origin :: "point option"
  box_size :: "extent option"

definition empty_box :: box where
  \<comment> \<open>the object literal \<^verbatim>\<open>{}\<close>\<close>
  "empty_box = \<lparr>box_left = None, box_top = None, box_width = None, box_height = None,
                 box_origin = None, box_size = None\<rparr>"

record landmark =
  lm_x :: "real option"
  lm_y :: "real option"
  lm_position :: "point option"

record landmark_set =
  leftEye :: "landmark option"
  rightEye :: "landmark option"
  noseBase :: "landmark option"
  mouthLeft :: "landmark option"
  mouthRight :: "landmark option"
  mouthBottom :: "landmark option"
  leftEar :: "landmark option"
  rightEar :: "landmark option"
  leftCheek :: "landmark option"
  rightCheek :: "landmark option"

definition empty_landmarks :: landmark_set where
  "empty_landmarks = \<lparr>leftEye = None, rightEye = None, noseBase = None, mouthLeft = None,
     mouthRight = None, mouthBottom = None, leftEar = None, rightEar = None,
     leftCheek = None, rightCheek = None\<rparr>"

record face =
  frame :: "box option"
  bounds :: "box option"
  landmarks :: "landmark_set option"
  smilingProbability :: "real option"
  leftEyeOpenProbability :: "real option"
  rightEyeOpenProbability :: "real option"
  headEulerAngleX :: "real option"
  headEulerAngleY :: "real option"
  headEulerAngleZ :: "real option"
  rotationX :: "real option"
  rotationY :: "real option"
  rotationZ :: "real option"

definition frame_or_bounds :: "face \<Rightarrow> box" where
  \<comment> \<open>\<^verbatim>\<open>face.frame || face.bounds || {}\<close>\<close>
  "frame_or_bounds fc =
     (case frame fc of Some b \<Rightarrow> b
      | None \<Rightarrow> (case bounds fc of Some b \<Rightarrow> b | None \<Rightarrow> empty_box))"

section \<open>\<^verbatim>\<open>isFaceCentered\<close>\<close>

text \<open>
  The four guidance strings of the source are Arabic sentences; they are named here by
  their meaning: "move your face to the left", "... to the right", "... down", "... up",
  and the message of the \<^verbatim>\<open>catch\<close> branch, "error while checking the face position".
\<close>

datatype guidance = MoveLeft | MoveRight | MoveDown | MoveUp | PositionCheckError

record center_check =
  centered :: bool
  offsetX :: jsnum
  offsetY :: jsnum
  message :: "guidance option"

definition isFaceCentered :: "face option \<Rightarrow> real \<Rightarrow> real \<Rightarrow> center_check" where
  "isFaceCentered face_arg imageWidth imageHeight =
     (case face_arg of
        None \<Rightarrow> \<comment> \<open>\<^verbatim>\<open>face.frame\<close> throws on null/undefined: the catch branch\<close>
          \<lparr>centered = False, offsetX = Fin 0, offsetY = Fin 0,
           message = Some PositionCheckError\<rparr>
      | Some fc \<Rightarrow>
          (let fr = frame_or_bounds fc;
               faceLeft = num_or (box_left fr) 0;
               faceTop = num_or (box_top fr) 0;
               faceWidth = num_or (box_width fr) 0;
               faceHeight = num_or (box_height fr) 0;
               faceCenterX = faceLeft + faceWidth / 2;
               faceCenterY = faceTop + faceHeight / 2;
               imageCenterX = imageWidth / 2;
               imageCenterY = imageHeight / 2;
               offX = js_times100 (js_div (faceCenterX - imageCenterX) imageWidth);
               offY = js_times100 (js_div (faceCenterY - imageCenterY) imageHeight);
               threshold = 25;
               isCenteredX = js_abs_le offX threshold;
               isCenteredY = js_abs_le offY threshold;
               msg = (if \<not> isCenteredX \<or> \<not> isCenteredY then
                        (if js_gt offX threshold then Some MoveLeft
                         else if js_lt offX (- threshold) then Some MoveRight
                         else if js_gt offY threshold then Some MoveDown
                         else if js_lt offY (- threshold) then Some MoveUp
                         else None)
                      else None)
           in \<lparr>centered = isCenteredX \<and> isCenteredY, offsetX = offX, offsetY = offY,
               message = msg\<rparr>))"



definition plain_face :: face where
  "plain_face = \<lparr>frame = None, bounds = None, landmarks = None, smilingProbability = None,
     leftEyeOpenProbability = None, rightEyeOpenProbability = None,
     headEulerAngleX = None, headEulerAngleY = None, headEulerAngleZ = None,
     rotationX = None, rotationY = None, rotationZ = None\<rparr>"

definition mk_box :: "real \<Rightarrow> real \<Rightarrow> real \<Rightarrow> real \<Rightarrow> box" where
  \<comment> \<open>an ML Kit frame \<^verbatim>\<open>{left, top, width, height}\<close>\<close>
  "mk_box l t w h = empty_box\<lparr>box_left := Some l, box_top := Some t,
                              box_width := Some w, box_height := Some h\<rparr>"

section \<open>\<^verbatim>\<open>validateFaceQuality\<close>\<close>

text \<open>
  The reasons, by meaning: 'No face detected', 'Please look at the camera',
  'Please open your eyes', and two Arabic sentences: "come a little closer, fill the
  circle with your face" and "look straight at the camera".
\<close>

datatype reason = NoFaceDetected | LookAtCamera | OpenYourEyes | ComeCloser | LookStraight

record quality_check =
  valid :: bool
  reason :: "reason option"

definition rejected :: "reason \<Rightarrow> quality_check" where
  "rejected r = \<lparr>valid = False, reason = Some r\<rparr>"

definition accepted :: quality_check where
  "accepted = \<lparr>valid = True, reason = None\<rparr>"

definition size_width :: "box \<Rightarrow> real option" where
  \<comment> \<open>\<^verbatim>\<open>frame.size?.width\<close>\<close>
  "size_width b = (case box_size b of None \<Rightarrow> None | Some s \<Rightarrow> ext_width s)"

definition size_height :: "box \<Rightarrow> real option" where
  "size_height b = (case box_size b of None \<Rightarrow> None | Some s \<Rightarrow> ext_height s)"

definition validateFaceQuality :: "face option \<Rightarrow> quality_check" where
  "validateFaceQuality faceData =
     (case faceData of
        None \<Rightarrow> rejected NoFaceDetected
      | Some fd \<Rightarrow>
          if frame fd = None \<and> bounds fd = None then rejected NoFaceDetected
          else if (case headEulerAngleY fd of None \<Rightarrow> False | Some a \<Rightarrow> 30 < \<bar>a\<bar>)
            then rejected LookAtCamera
          else if (case (leftEyeOpenProbability fd, rightEyeOpenProbability fd) of
                     (Some l, Some r) \<Rightarrow> (l + r) / 2 < 0.5
                   | _ \<Rightarrow> False)
            then rejected OpenYourEyes
          else
            (let fr = frame_or_bounds fd;
                 faceWidth = num_or (js_or (box_width fr) (size_width fr)) 0;
                 faceHeight = num_or (js_or (box_height fr) (size_height fr)) 0
             in if faceWidth < 150 then rejected ComeCloser
                else (let aspectRatio = faceWidth / max faceHeight 1
                      in if aspectRatio < 0.7 \<or> 1.4 < aspectRatio then rejected LookStraight
                         else accepted)))"

















section \<open>The capture orchestrator (component \<^verbatim>\<open>FaceCaptureScreen\<close>)\<close>

text \<open>
  The screen runs on one cooperative event loop. Every piece of code between two
  \<^verbatim>\<open>await\<close>s runs to completion, so the component is modelled as a state (its refs, the
  React state the code reads, the timers and asynchronous calls in flight) and one
  handler per run-to-completion segment; an event names the segment that runs next and
  carries what the environment answers (the detector's result, whether
  \<^verbatim>\<open>cameraRef.current\<close> is set, how the capture ended). Camera permission and the camera
  device are taken as granted and present throughout.

  \<^verbatim>\<open>detectFaces\<close>, the capture timer's callback and \<^verbatim>\<open>captureFaceFeaturesFromPhoto\<close>
  are closures created by the detection effect. The effect body returns at once unless
  \<^verbatim>\<open>hasPermission && device && !isCapturing && isScreenFocused\<close>, and React state is
  constant within one render, so inside every such closure the three state variables
  below have these values for as long as the closure lives; later \<^verbatim>\<open>setIsScreenFocused\<close>
  or \<^verbatim>\<open>setIsCapturing\<close> calls are seen only by closures of later renders.
\<close>

definition closure_isCapturing :: bool where
  "closure_isCapturing = False"

definition closure_isScreenFocused :: bool where
  "closure_isScreenFocused = True"

definition closure_hasPermission :: bool where
  "closure_hasPermission = True"

datatype detect_phase = NoDetection | AwaitPhoto | AwaitDetect

datatype capture_fn = FromPhoto | Legacy

datatype capture_outcome = CaptureSucceeded | CaptureFailed | CaptureAborted

text \<open>
  What one detection call delivers: the faces with the photo size used for the centring
  check, or a rejection (detector error or the 2 s timeout); \<open>True\<close> marks the
  "Camera is closed" error, which the catch block treats apart.
\<close>

datatype detection_result = Detected "face list" real real | DetectError bool

record session =
  centeredCount :: nat            \<comment> \<open>\<^verbatim>\<open>centeredCountRef\<close>\<close>
  captureTimer :: bool            \<comment> \<open>\<^verbatim>\<open>captureTimerRef.current\<close> is not null\<close>
  timerLive :: bool               \<comment> \<open>that timeout is scheduled: neither fired nor cleared\<close>
  timerFace :: "face option"      \<comment> \<open>\<^verbatim>\<open>faces[0]\<close> in the closure of the timer callback\<close>
  hasCaptured :: bool             \<comment> \<open>\<^verbatim>\<open>hasCapturedRef\<close>\<close>
  lastDetectionPhoto :: "face option"  \<comment> \<open>the face in \<^verbatim>\<open>lastDetectionPhotoRef\<close>\<close>
  detection :: detect_phase       \<comment> \<open>where the \<^verbatim>\<open>detectFaces\<close> call in flight is suspended\<close>
  faceCentered :: bool
  isCapturing :: bool
  isScreenFocused :: bool
  startTimer :: bool              \<comment> \<open>the effect's 1 s start timeout is scheduled\<close>
  detectionInterval :: bool       \<comment> \<open>\<^verbatim>\<open>detectionIntervalRef.current\<close> is a live interval\<close>
  effectCleanup :: bool           \<comment> \<open>the last effect run returned a cleanup function\<close>
  effectDeps :: "bool \<times> bool"      \<comment> \<open>\<^verbatim>\<open>(isCapturing, isScreenFocused)\<close> at the last effect run\<close>
  captureWaiting :: bool          \<comment> \<open>the timer callback is in its wait loop\<close>
  captureRunning :: "capture_fn option"  \<comment> \<open>a capture function is suspended at an await\<close>
  capturingEntered :: nat         \<comment> \<open>how often the timer callback took its capture branch\<close>
  captures :: nat                 \<comment> \<open>how many captures ran to their successful end\<close>

definition pendingDetection :: "session \<Rightarrow> bool" where
  \<comment> \<open>\<^verbatim>\<open>pendingDetectionRef\<close>: set when a detection starts, cleared in its \<^verbatim>\<open>finally\<close>\<close>
  "pendingDetection s = (detection s \<noteq> NoDetection)"

definition clearCaptureTimer :: "session \<Rightarrow> session" where
  \<comment> \<open>\<^verbatim>\<open>if (captureTimerRef.current) { clearTimeout(...); captureTimerRef.current = null }\<close>\<close>
  "clearCaptureTimer s = (if captureTimer s then s\<lparr>captureTimer := False, timerLive := False\<rparr> else s)"

definition onFocus :: "session \<Rightarrow> session" where
  "onFocus s = s\<lparr>isScreenFocused := True, hasCaptured := False\<rparr>"

definition onBlur :: "session \<Rightarrow> session" where
  "onBlur s = clearCaptureTimer (s\<lparr>isScreenFocused := False\<rparr>)"

definition detectFaces :: "bool \<Rightarrow> session \<Rightarrow> session" where
  \<comment> \<open>up to the first await; \<^verbatim>\<open>isDetecting\<close> is set and cleared together with
      \<^verbatim>\<open>pendingDetectionRef\<close>, so it adds nothing to the guard\<close>
  "detectFaces cam s =
     (if \<not> cam \<or> closure_isCapturing \<or> hasCaptured s \<or> \<not> closure_isScreenFocused
         \<or> pendingDetection s
      then s else s\<lparr>detection := AwaitPhoto\<rparr>)"

definition photoTaken :: "session \<Rightarrow> session" where
  \<comment> \<open>\<^verbatim>\<open>takePhoto\<close> resolved: the check after the photo, then the call of the detector\<close>
  "photoTaken s =
     (if detection s \<noteq> AwaitPhoto then s
      else if hasCaptured s \<or> closure_isCapturing then s\<lparr>detection := NoDetection\<rparr>
      else s\<lparr>detection := AwaitDetect\<rparr>)"

definition processDetection :: "detection_result \<Rightarrow> session \<Rightarrow> session" where
  \<comment> \<open>the rest of \<^verbatim>\<open>detectFaces\<close> once the detector has answered, without the \<^verbatim>\<open>finally\<close>\<close>
  "processDetection r s =
     (case r of
        Detected (f # fs) photoWidth photoHeight \<Rightarrow>
          (let centerCheck = isFaceCentered (Some f) photoWidth photoHeight
           in if centered centerCheck then
                (let s1 = s\<lparr>centeredCount := centeredCount s + 1\<rparr>
                 in if 2 \<le> centeredCount s1 then
                      (let s2 = s1\<lparr>faceCentered := True\<rparr>
                       in if \<not> captureTimer s2 \<and> \<not> hasCaptured s2 then
                            (if valid (validateFaceQuality (Some f))
                             then s2\<lparr>lastDetectionPhoto := Some f, captureTimer := True,
                                     timerLive := True, timerFace := Some f\<rparr>
                             else s2)
                          else s2)
                    else s1\<lparr>faceCentered := False\<rparr>)
              else clearCaptureTimer (s\<lparr>centeredCount := 0, faceCentered := False\<rparr>))
      | Detected [] photoWidth photoHeight \<Rightarrow>
          (clearCaptureTimer (s\<lparr>faceCentered := False\<rparr>))\<lparr>centeredCount := 0\<rparr>
      | DetectError cameraClosed \<Rightarrow>
          (if cameraClosed then s
           else (clearCaptureTimer (s\<lparr>faceCentered := False\<rparr>))\<lparr>centeredCount := 0\<rparr>))"

definition detectionDone :: "detection_result \<Rightarrow> session \<Rightarrow> session" where
  \<comment> \<open>a detection in flight ends: with faces only from the detector call, with an error
      from either await; the \<^verbatim>\<open>finally\<close> block clears the pending flag\<close>
  "detectionDone r s =
     (if detection s = AwaitDetect \<or> (detection s = AwaitPhoto \<and> (case r of DetectError c \<Rightarrow> True | _ \<Rightarrow> False))
      then (processDetection r s)\<lparr>detection := NoDetection\<rparr>
      else s)"

definition captureFaceFeaturesFromPhoto :: "face \<Rightarrow> session \<Rightarrow> session" where
  \<comment> \<open>up to the first await\<close>
  "captureFaceFeaturesFromPhoto detectedFace s =
     (if closure_isCapturing \<or> \<not> closure_isScreenFocused then s
      else (let s1 = s\<lparr>isCapturing := True\<rparr>
            in if \<not> valid (validateFaceQuality (Some detectedFace))
               then s1\<lparr>isCapturing := False, hasCaptured := False\<rparr>
               else s1\<lparr>captureRunning := Some FromPhoto\<rparr>))"

definition captureFaceFeatures :: "bool \<Rightarrow> face \<Rightarrow> session \<Rightarrow> session" where
  \<comment> \<open>up to the first await\<close>
  "captureFaceFeatures cam detectedFace s =
     (if \<not> cam \<or> closure_isCapturing \<or> \<not> closure_isScreenFocused then s
      else (let s1 = s\<lparr>detectionInterval := False, isCapturing := True\<rparr>
            in if \<not> valid (validateFaceQuality (Some detectedFace))
               then s1\<lparr>isCapturing := False\<rparr>
               else s1\<lparr>captureRunning := Some Legacy\<rparr>))"

definition startCapture :: "bool \<Rightarrow> session \<Rightarrow> session" where
  \<comment> \<open>the timer callback after its wait loop: clear the timer ref, then capture from the
      stored detection photo (or, without one, through the older function)\<close>
  "startCapture cam s =
     (let s1 = s\<lparr>captureTimer := False\<rparr>
      in case lastDetectionPhoto s1 of
           Some f \<Rightarrow> captureFaceFeaturesFromPhoto f s1
         | None \<Rightarrow> (case timerFace s1 of
                       Some f \<Rightarrow> captureFaceFeatures cam f s1
                     | None \<Rightarrow> s1))"

definition timerFired :: "bool \<Rightarrow> session \<Rightarrow> session" where
  \<comment> \<open>the capture timer's callback: with no detection pending the wait loop is skipped
      and the capture starts in the same turn, otherwise the callback waits\<close>
  "timerFired cam s =
     (if \<not> timerLive s then s
      else (let s1 = s\<lparr>timerLive := False\<rparr>
            in if \<not> hasCaptured s1 \<and> cam \<and> \<not> closure_isCapturing \<and> closure_isScreenFocused
                  \<and> closure_hasPermission
               then (let s2 = s1\<lparr>hasCaptured := True, detectionInterval := False,
                                   capturingEntered := capturingEntered s1 + 1\<rparr>
                     in if pendingDetection s2 then s2\<lparr>captureWaiting := True\<rparr>
                        else startCapture cam s2)
               else s1\<lparr>captureTimer := False\<rparr>))"

definition waitOver :: "bool \<Rightarrow> session \<Rightarrow> session" where
  \<comment> \<open>the wait loop ends, because the detection finished or after 2 s ("proceeding
      anyway")\<close>
  "waitOver cam s =
     (if \<not> captureWaiting s then s
      else startCapture cam (s\<lparr>captureWaiting := False\<rparr>))"

definition captureDone :: "capture_outcome \<Rightarrow> session \<Rightarrow> session" where
  \<comment> \<open>how a suspended capture function ends: it runs to its end (the capture result is
      stored, handed to the callback or shown), it throws into its catch block
      (\<^verbatim>\<open>hasCapturedRef.current = false\<close>, "reset to allow retry"), or, only in the legacy
      function, it returns early on a camera error\<close>
  "captureDone outcome s =
     (case captureRunning s of
        None \<Rightarrow> s
      | Some fn \<Rightarrow>
          (let s1 = s\<lparr>captureRunning := None, isCapturing := False\<rparr>
           in case outcome of
                CaptureSucceeded \<Rightarrow> s1\<lparr>captures := captures s1 + 1\<rparr>
              | CaptureFailed \<Rightarrow> s1\<lparr>hasCaptured := False\<rparr>
              | CaptureAborted \<Rightarrow> (if fn = Legacy then s1 else s)))"

definition render :: "session \<Rightarrow> session" where
  \<comment> \<open>React commits a render: when a dependency of the detection effect changed, the
      previous run's cleanup runs, then the effect body\<close>
  "render s =
     (if effectDeps s = (isCapturing s, isScreenFocused s) then s
      else (let s1 = (if effectCleanup s
                      then clearCaptureTimer (s\<lparr>startTimer := False, detectionInterval := False\<rparr>)
                      else s);
                s2 = s1\<lparr>effectDeps := (isCapturing s, isScreenFocused s)\<rparr>
            in if isCapturing s \<or> \<not> isScreenFocused s then s2\<lparr>effectCleanup := False\<rparr>
               else if hasCaptured s then s2\<lparr>effectCleanup := False\<rparr>
               else s2\<lparr>startTimer := True, effectCleanup := True\<rparr>))"

definition startTimerFired :: "bool \<Rightarrow> session \<Rightarrow> session" where
  "startTimerFired cam s =
     (if \<not> startTimer s then s
      else (detectFaces cam (s\<lparr>startTimer := False\<rparr>))\<lparr>detectionInterval := True\<rparr>)"

definition intervalTick :: "bool \<Rightarrow> session \<Rightarrow> session" where
  "intervalTick cam s =
     (if \<not> detectionInterval s then s
      else if \<not> hasCaptured s then detectFaces cam s else s)"

datatype event =
    Focus | Blur | Render
  | StartTimerFired bool | IntervalTick bool | PhotoTaken | DetectionDone detection_result
  | TimerFired bool | WaitOver bool | CaptureDone capture_outcome

fun step :: "event \<Rightarrow> session \<Rightarrow> session" where
  "step Focus s = onFocus s"
| "step Blur s = onBlur s"
| "step Render s = render s"
| "step (StartTimerFired cam) s = startTimerFired cam s"
| "step (IntervalTick cam) s = intervalTick cam s"
| "step PhotoTaken s = photoTaken s"
| "step (DetectionDone r) s = detectionDone r s"
| "step (TimerFired cam) s = timerFired cam s"
| "step (WaitOver cam) s = waitOver cam s"
| "step (CaptureDone outcome) s = captureDone outcome s"

definition run :: "event list \<Rightarrow> session \<Rightarrow> session" where
  "run evs s = foldl (\<lambda>st e. step e st) s evs"

definition mounted :: session where
  \<comment> \<open>the focused screen once permission is granted and the detection effect has run\<close>
  "mounted = \<lparr>centeredCount = 0, captureTimer = False, timerLive = False, timerFace = None,
     hasCaptured = False, lastDetectionPhoto = None, detection = NoDetection,
     faceCentered = False, isCapturing = False, isScreenFocused = True,
     startTimer = True, detectionInterval = False, effectCleanup = True,
     effectDeps = (False, True), captureWaiting = False, captureRunning = None,
     capturingEntered = 0, captures = 0\<rparr>"

text \<open>
  The centring tracker is the part of \<^verbatim>\<open>detectFaces\<close> that runs on each detector answer.
  An observation is one answer: the faces found (none for an empty array) and the photo
  size the centring check is given.
\<close>

type_synonym observation = "face list \<times> real \<times> real"

definition observe :: "observation \<Rightarrow> session \<Rightarrow> session" where
  "observe ob s = (case ob of (fs, w, h) \<Rightarrow> processDetection (Detected fs w h) s)"

definition obs_centered :: "observation \<Rightarrow> bool" where
  \<comment> \<open>a face was found and \<^verbatim>\<open>isFaceCentered(faces[0], ...)\<close> says centred\<close>
  "obs_centered ob =
     (case ob of (f # fs, w, h) \<Rightarrow> centered (isFaceCentered (Some f) w h) | _ \<Rightarrow> False)"

definition tracker :: "observation list \<Rightarrow> session \<Rightarrow> session" where
  "tracker obs s = foldl (\<lambda>st ob. observe ob st) s obs"

definition centred_run :: "observation list \<Rightarrow> nat" where
  \<comment> \<open>how many centred observations end the sequence\<close>
  "centred_run obs = length (takeWhile obs_centered (rev obs))"

definition good_face :: face where
  \<comment> \<open>frontal, eyes open, 200 px wide, centred in a 400 x 460 photo\<close>
  "good_face = plain_face\<lparr>frame := Some (mk_box 100 120 200 220),
     leftEyeOpenProbability := Some 0.9, rightEyeOpenProbability := Some 0.8,
     headEulerAngleY := Some 3\<rparr>"

definition good_shot :: detection_result where
  "good_shot = Detected [good_face] 400 460"

text \<open>
  Invariants of one session (no \<open>Focus\<close> event): a capture in progress has the flag set
  and no capture has succeeded yet; after a success the flag stays set. The stored
  detection face always passed the quality gate.
\<close>

definition single_shot :: "session \<Rightarrow> bool" where
  "single_shot s =
     ((if captureWaiting s \<or> captureRunning s \<noteq> None then hasCaptured s \<and> captures s = 0 else True)
      \<and> (if captureWaiting s then captureRunning s = None else True)
      \<and> captures s \<le> 1
      \<and> (if captures s = 1 then hasCaptured s else True))"

definition photo_ok :: "session \<Rightarrow> bool" where
  "photo_ok s =
     (case lastDetectionPhoto s of None \<Rightarrow> True
      | Some f \<Rightarrow> valid (validateFaceQuality (Some f)))"

text \<open>
  A session in which the first capture attempt throws: two centred detections arm the
  timer, it fires and the capture starts, the capture ends in its catch block, the
  detection effect restarts, and the next centred detection arms the timer again.
\<close>

definition first_attempt :: "event list" where
  "first_attempt =
     [StartTimerFired True, PhotoTaken, DetectionDone good_shot,
      IntervalTick True, PhotoTaken, DetectionDone good_shot,
      TimerFired True]"

definition retry_trace :: "event list" where
  "retry_trace = first_attempt @
     [Render, CaptureDone CaptureFailed, Render,
      StartTimerFired True, PhotoTaken, DetectionDone good_shot,
      TimerFired True]"

text \<open>
  A session blurred while the settle timer is armed and a detection call is in flight:
  \<open>stabilizing\<close> leads to that state; after the blur the detector answers, the timer
  is armed again, fires, and the capture runs to its end.
\<close>

definition stabilizing :: "event list" where
  "stabilizing =
     [StartTimerFired True, PhotoTaken, DetectionDone good_shot,
      IntervalTick True, PhotoTaken, DetectionDone good_shot,
      IntervalTick True, PhotoTaken]"

definition after_blur :: "event list" where
  "after_blur =
     [Render, DetectionDone good_shot, TimerFired True, CaptureDone CaptureSucceeded]"

section \<open>Number formatting and the string hash\<close>

text \<open>
  Strings are lists of characters; every string the hash sees is ASCII (digits, sign,
  point, comma), so a character's code unit is its \<open>of_char\<close> value.
\<close>

definition digit_char :: "nat \<Rightarrow> char" where
  "digit_char n = ''0123456789abcdef'' ! n"

fun radix_digits :: "nat \<Rightarrow> nat \<Rightarrow> string" where
  \<comment> \<open>the digits of \<open>n\<close> in base \<open>b\<close> (as used: 10 or 16), most significant first\<close>
  "radix_digits b n =
     (if n < b \<or> b < 2 then [digit_char n]
      else radix_digits b (n div b) @ [digit_char (n mod b)])"

declare radix_digits.simps [simp del]

definition scaled_round :: "nat \<Rightarrow> real \<Rightarrow> nat" where
  \<comment> \<open>the integer \<open>n\<close> for which \<open>n / 10^d\<close> is nearest to \<open>|x|\<close>, the larger one on a tie\<close>
  "scaled_round d x = nat \<lfloor>\<bar>x\<bar> * 10 ^ d + 1 / 2\<rfloor>"

definition fixed_string :: "nat \<Rightarrow> bool \<Rightarrow> nat \<Rightarrow> string" where
  \<comment> \<open>sign, digits of \<open>n\<close> padded with zeros to more than \<open>d\<close> digits, point before the
      last \<open>d\<close>\<close>
  "fixed_string d negative n =
     (let m = radix_digits 10 n;
          m' = (if length m \<le> d then replicate (d + 1 - length m) CHR ''0'' @ m else m);
          k = length m'
      in (if negative then ''-'' else '''')
         @ take (k - d) m' @ (if d = 0 then '''' else ''.'' @ drop (k - d) m'))"

definition toFixed :: "nat \<Rightarrow> real \<Rightarrow> string" where
  \<comment> \<open>\<^verbatim>\<open>x.toFixed(d)\<close> for finite \<open>x\<close> below \<open>10^21\<close> in absolute value\<close>
  "toFixed d x = fixed_string d (x < 0) (scaled_round d x)"

text \<open>
  The result of an arithmetic operation on doubles is the exact result rounded to the
  nearest double, to the one with the even significand on a tie. A double has 53
  significant bits: with \<open>2^e \<le> |x| < 2^(e+1)\<close> (and \<open>e\<close> not below \<open>-1022\<close>, where the
  subnormal numbers begin) the doubles around \<open>x\<close> are the multiples of \<open>2^(e-52)\<close>.
  Overflow to infinity (results of \<open>2^1024\<close> and more) is not modelled.
\<close>

fun bit_length :: "nat \<Rightarrow> nat" where
  \<comment> \<open>the number of binary digits of \<open>n\<close>, none for \<open>0\<close>\<close>
  "bit_length n = (if n = 0 then 0 else Suc (bit_length (n div 2)))"

declare bit_length.simps [simp del]

definition binary_exponent :: "real \<Rightarrow> int" where
  \<comment> \<open>for \<open>0 < x\<close>: the \<open>e\<close> with \<open>2^e \<le> x < 2^(e+1)\<close>\<close>
  "binary_exponent x =
     (if 1 \<le> x then int (bit_length (nat \<lfloor>x\<rfloor>)) - 1
      else - int (bit_length (nat (\<lceil>1 / x\<rceil> - 1))))"

definition pow2 :: "int \<Rightarrow> real" where
  "pow2 e = (if 0 \<le> e then 2 ^ nat e else 1 / 2 ^ nat (- e))"

definition round_even :: "real \<Rightarrow> int" where
  \<comment> \<open>the nearest integer, the even one on a tie\<close>
  "round_even y =
     (let n = \<lfloor>y\<rfloor>; r = y - of_int n
      in if r < 1 / 2 then n else if 1 / 2 < r then n + 1 else if even n then n else n + 1)"

definition fl :: "real \<Rightarrow> real" where
  \<comment> \<open>the double nearest to \<open>x\<close>\<close>
  "fl x =
     (if x = 0 then 0
      else (let e = max (binary_exponent \<bar>x\<bar>) (- 1022) - 52
            in of_int (round_even (x / pow2 e)) * pow2 e))"

definition js_round :: "real \<Rightarrow> real" where
  \<comment> \<open>\<^verbatim>\<open>Math.round\<close>: the nearest integer, the larger one on a tie\<close>
  "js_round x = of_int \<lfloor>x + 1 / 2\<rfloor>"

definition round2 :: "real \<Rightarrow> real" where
  \<comment> \<open>\<^verbatim>\<open>Math.round(v * 100) / 100\<close>\<close>
  "round2 v = fl (js_round (fl (v * 100)) / 100)"

fun join_comma :: "string list \<Rightarrow> string" where
  \<comment> \<open>\<^verbatim>\<open>.join(',')\<close>\<close>
  "join_comma [] = ''''"
| "join_comma [s] = s"
| "join_comma (s # t # ss) = s @ '','' @ join_comma (t # ss)"

definition shl5 :: "int \<Rightarrow> int" where
  \<comment> \<open>\<^verbatim>\<open>acc << 5\<close>: the operand is taken to a signed 32-bit integer, the result is one\<close>
  "shl5 acc = sint (push_bit 5 (word_of_int acc :: 32 word))"

definition hash_step :: "int \<Rightarrow> char \<Rightarrow> int" where
  \<comment> \<open>\<^verbatim>\<open>((acc << 5) - acc) + char.charCodeAt(0)\<close>: the subtraction and the addition are
      ordinary number arithmetic, exact on the integers that occur\<close>
  "hash_step acc c = (shl5 acc - acc) + of_char c"

definition string_hash :: "string \<Rightarrow> int" where
  \<comment> \<open>\<^verbatim>\<open>s.split('').reduce(..., 0)\<close>\<close>
  "string_hash s = foldl hash_step 0 s"

definition hex_abs :: "int \<Rightarrow> string" where
  \<comment> \<open>\<^verbatim>\<open>Math.abs(hash).toString(16)\<close>\<close>
  "hex_abs h = radix_digits 16 (nat \<bar>h\<bar>)"



section \<open>\<^verbatim>\<open>generateFaceIdFromLandmarks\<close>, \<^verbatim>\<open>generateFaceIdFallback\<close>, \<^verbatim>\<open>generateFaceId\<close>\<close>

definition getLandmarkPos :: "landmark option \<Rightarrow> (real \<times> real) option" where
  "getLandmarkPos lmk =
     (case lmk of
        None \<Rightarrow> None
      | Some l \<Rightarrow>
          (case (lm_x l, lm_y l) of
             (Some x, Some y) \<Rightarrow> Some (x, y)
           | _ \<Rightarrow>
               (case lm_position l of
                  None \<Rightarrow> None
                | Some p \<Rightarrow>
                    (case (pt_x p, pt_y p) of (Some x, Some y) \<Rightarrow> Some (x, y) | _ \<Rightarrow> None))))"

definition origin_x :: "box \<Rightarrow> real option" where
  \<comment> \<open>\<^verbatim>\<open>bounds.origin?.x\<close>\<close>
  "origin_x b = (case box_origin b of None \<Rightarrow> None | Some p \<Rightarrow> pt_x p)"

definition origin_y :: "box \<Rightarrow> real option" where
  "origin_y b = (case box_origin b of None \<Rightarrow> None | Some p \<Rightarrow> pt_y p)"

definition hash_frame :: "face \<Rightarrow> box" where
  \<comment> \<open>\<^verbatim>\<open>let frame = faceData.frame || {}\<close>, replaced from \<^verbatim>\<open>bounds\<close> when it has no width\<close>
  "hash_frame fd =
     (let fr = (case frame fd of Some b \<Rightarrow> b | None \<Rightarrow> empty_box)
      in if \<not> truthy (box_width fr) then
           (case bounds fd of
              None \<Rightarrow> fr
            | Some b \<Rightarrow>
                empty_box\<lparr>box_left := Some (num_or (js_or (origin_x b) (box_left b)) 0),
                          box_top := Some (num_or (js_or (origin_y b) (box_top b)) 0),
                          box_width := Some (num_or (js_or (size_width b) (box_width b)) 1),
                          box_height := Some (num_or (js_or (size_height b) (box_height b)) 1)\<rparr>)
         else fr)"

text \<open>What the hash reads of the bounding box: left, top, width, height.\<close>

definition hash_left :: "face \<Rightarrow> real" where
  "hash_left fd = num_or (box_left (hash_frame fd)) 0"

definition hash_top :: "face \<Rightarrow> real" where
  "hash_top fd = num_or (box_top (hash_frame fd)) 0"

definition hash_width :: "face \<Rightarrow> real" where
  "hash_width fd = num_or (box_width (hash_frame fd)) 1"

definition hash_height :: "face \<Rightarrow> real" where
  "hash_height fd = num_or (box_height (hash_frame fd)) 1"

definition face_landmarks :: "face \<Rightarrow> landmark_set" where
  \<comment> \<open>\<^verbatim>\<open>faceData.landmarks || {}\<close>\<close>
  "face_landmarks fd = (case landmarks fd of Some l \<Rightarrow> l | None \<Rightarrow> empty_landmarks)"

text \<open>The five landmarks the hash uses, in the order it pushes them.\<close>

definition hashed_positions :: "face \<Rightarrow> (real \<times> real) option list" where
  "hashed_positions fd =
     (let l = face_landmarks fd
      in map getLandmarkPos [leftEye l, rightEye l, noseBase l, mouthLeft l, mouthRight l])"

definition faceCenterX :: "face \<Rightarrow> real" where
  \<comment> \<open>\<^verbatim>\<open>(frame.left || 0) + faceWidth / 2\<close>\<close>
  "faceCenterX fd = fl (hash_left fd + fl (hash_width fd / 2))"

definition faceCenterY :: "face \<Rightarrow> real" where
  "faceCenterY fd = fl (hash_top fd + fl (hash_height fd / 2))"

definition relative_pos :: "real \<Rightarrow> real \<Rightarrow> real \<Rightarrow> real \<Rightarrow> (real \<times> real) option \<Rightarrow> real list" where
  \<comment> \<open>one landmark, relative to the box centre and normalised by the box size\<close>
  "relative_pos cx cy w h pos =
     (case pos of None \<Rightarrow> [] | Some (x, y) \<Rightarrow> [fl (fl (x - cx) / w), fl (fl (y - cy) / h)])"

definition js_square :: "real \<Rightarrow> real" where
  \<comment> \<open>\<^verbatim>\<open>Math.pow(d, 2)\<close>, taken as correctly rounded\<close>
  "js_square d = fl (d ^ 2)"

definition js_sqrt :: "real \<Rightarrow> real" where
  \<comment> \<open>\<^verbatim>\<open>Math.sqrt\<close>, correctly rounded\<close>
  "js_sqrt x = fl (sqrt x)"

definition eye_distance :: "real \<Rightarrow> (real \<times> real) option \<Rightarrow> (real \<times> real) option \<Rightarrow> real list" where
  "eye_distance w le re =
     (case (le, re) of
        (Some (lx, ly), Some (rx, ry)) \<Rightarrow>
          [fl (js_sqrt (fl (js_square (fl (rx - lx)) + js_square (fl (ry - ly)))) / w)]
      | _ \<Rightarrow> [])"

definition landmark_features :: "face \<Rightarrow> real list" where
  "landmark_features fd =
     (let faceWidth = hash_width fd;
          faceHeight = hash_height fd;
          cx = faceCenterX fd;
          cy = faceCenterY fd;
          lms = face_landmarks fd;
          leftEyePos = getLandmarkPos (leftEye lms);
          rightEyePos = getLandmarkPos (rightEye lms);
          nosePos = getLandmarkPos (noseBase lms);
          mouthLeftPos = getLandmarkPos (mouthLeft lms);
          mouthRightPos = getLandmarkPos (mouthRight lms)
      in relative_pos cx cy faceWidth faceHeight leftEyePos
         @ relative_pos cx cy faceWidth faceHeight rightEyePos
         @ relative_pos cx cy faceWidth faceHeight nosePos
         @ relative_pos cx cy faceWidth faceHeight mouthLeftPos
         @ relative_pos cx cy faceWidth faceHeight mouthRightPos
         @ eye_distance faceWidth leftEyePos rightEyePos)"

definition nullish_or :: "real option \<Rightarrow> real option \<Rightarrow> real option" where
  \<comment> \<open>\<^verbatim>\<open>a ?? b\<close>\<close>
  "nullish_or a b = (case a of None \<Rightarrow> b | Some x \<Rightarrow> Some x)"

definition normalized_angle :: "real \<Rightarrow> real" where
  \<comment> \<open>\<^verbatim>\<open>(rot + 90) / 180\<close>\<close>
  "normalized_angle a = fl (fl (a + 90) / 180)"

definition rotation_feature :: "real option \<Rightarrow> real list" where
  "rotation_feature r = (case r of None \<Rightarrow> [] | Some a \<Rightarrow> [round2 (normalized_angle a)])"

definition frame_features :: "face \<Rightarrow> real list" where
  \<comment> \<open>the fallback when no landmark feature was pushed\<close>
  "frame_features fd =
     (let faceWidth = hash_width fd;
          faceHeight = hash_height fd;
          facePosX = fl (hash_left fd / max faceWidth 1);
          facePosY = fl (hash_top fd / max faceHeight 1);
          faceAspectRatio = fl (faceWidth / max faceHeight 1)
      in [round2 facePosX, round2 facePosY, round2 faceAspectRatio]
         @ rotation_feature (nullish_or (headEulerAngleX fd) (rotationX fd))
         @ rotation_feature (nullish_or (headEulerAngleY fd) (rotationY fd))
         @ rotation_feature (nullish_or (headEulerAngleZ fd) (rotationZ fd)))"

definition face_features :: "face \<Rightarrow> real list" where
  "face_features fd =
     (let features = landmark_features fd;
          features = (if features = [] then frame_features fd else features);
          features = features @ (case smilingProbability fd of None \<Rightarrow> []
                                 | Some p \<Rightarrow> [round2 p]);
          features = features @ [round2 (fl (hash_width fd / num_or (Some (hash_height fd)) 1))]
      in features @ (case headEulerAngleY fd of None \<Rightarrow> []
                     | Some a \<Rightarrow> [round2 (normalized_angle a)]))"

definition featureString :: "face \<Rightarrow> string" where
  "featureString fd = join_comma (map (toFixed 4) (face_features fd))"

definition generateFaceIdFromLandmarks :: "face \<Rightarrow> string" where
  \<comment> \<open>with numbers for every coordinate nothing in the \<^verbatim>\<open>try\<close> block throws, so the
      \<^verbatim>\<open>catch\<close> branch does not occur\<close>
  "generateFaceIdFromLandmarks fd = hex_abs (string_hash (featureString fd))"

definition generateFaceIdFallback :: "string \<Rightarrow> string" where
  "generateFaceIdFallback imageData =
     (let sample1 = take 100 imageData;
          sample2 = take 100 (drop (length imageData div 2) imageData);
          sample3 = drop (length imageData - 100) imageData;
          combined = sample1 @ sample2 @ sample3
      in hex_abs (string_hash combined))"

datatype js_error = TypeError

definition faceIdFromImage :: "string option \<Rightarrow> string option \<Rightarrow> js_error + string" where
  \<comment> \<open>the two fallbacks of \<^verbatim>\<open>generateFaceId\<close>. \<open>json\<close> is \<^verbatim>\<open>JSON.stringify(faceData)\<close>,
      which is \<^verbatim>\<open>undefined\<close> for an undefined argument; the fallback's
      \<^verbatim>\<open>imageData.substring\<close> then throws\<close>
  "faceIdFromImage base64Image json =
     (case base64Image of
        Some (c # cs) \<Rightarrow> Inr (generateFaceIdFallback (c # cs))
      | _ \<Rightarrow> (case json of None \<Rightarrow> Inl TypeError | Some j \<Rightarrow> Inr (generateFaceIdFallback j)))"

definition generateFaceId :: "face option \<Rightarrow> string option \<Rightarrow> string option \<Rightarrow> js_error + string" where
  "generateFaceId faceData base64Image json =
     (case faceData of
        None \<Rightarrow> faceIdFromImage base64Image json
      | Some fd \<Rightarrow>
          if landmarks fd \<noteq> None \<or> frame fd \<noteq> None \<or> bounds fd \<noteq> None
          then Inr (generateFaceIdFromLandmarks fd)
          else faceIdFromImage base64Image json)"

definition mk_landmark :: "real \<Rightarrow> real \<Rightarrow> landmark" where
  "mk_landmark x y = \<lparr>lm_x = Some x, lm_y = Some y, lm_position = None\<rparr>"

definition five_landmarks :: "real \<Rightarrow> real \<Rightarrow> landmark_set" where
  \<comment> \<open>eyes, nose and mouth corners of a face whose box has its corner at \<open>(l, t)\<close>\<close>
  "five_landmarks l t = empty_landmarks\<lparr>
     leftEye := Some (mk_landmark (l + 60) (t + 80)),
     rightEye := Some (mk_landmark (l + 140) (t + 80)),
     noseBase := Some (mk_landmark (l + 100) (t + 120)),
     mouthLeft := Some (mk_landmark (l + 70) (t + 170)),
     mouthRight := Some (mk_landmark (l + 130) (t + 170))\<rparr>"

definition sample_face :: "real \<Rightarrow> real \<Rightarrow> face" where
  \<comment> \<open>a 200 x 220 face with five landmarks, its box corner at \<open>(l, t)\<close>\<close>
  "sample_face l t = plain_face\<lparr>frame := Some (mk_box l t 200 220),
     landmarks := Some (five_landmarks l t), headEulerAngleY := Some 3\<rparr>"


text \<open>
  An observation has landmarks present when some landmark of its \<^verbatim>\<open>landmarks\<close> object has
  a position. The hash reads five of the ten landmarks (eyes, nose base, mouth corners);
  when none of these five has a position it pushes no landmark feature and falls back to
  the features of the box. \<open>shifted\<close> moves a landmark position by \<open>(dx, dy)\<close>.
\<close>

definition all_positions :: "face \<Rightarrow> (real \<times> real) option list" where
  "all_positions fd =
     (let l = face_landmarks fd
      in map getLandmarkPos [leftEye l, rightEye l, noseBase l, mouthLeft l, mouthRight l,
                             mouthBottom l, leftEar l, rightEar l, leftCheek l, rightCheek l])"

definition landmarks_present :: "face \<Rightarrow> bool" where
  "landmarks_present fd = list_ex (\<lambda>p. p \<noteq> None) (all_positions fd)"

definition hashed_landmark_present :: "face \<Rightarrow> bool" where
  "hashed_landmark_present fd = list_ex (\<lambda>p. p \<noteq> None) (hashed_positions fd)"

definition shifted :: "real \<Rightarrow> real \<Rightarrow> (real \<times> real) option \<Rightarrow> (real \<times> real) option" where
  "shifted dx dy pos = (case pos of None \<Rightarrow> None | Some (x, y) \<Rightarrow> Some (x + dx, y + dy))"


definition ear_landmarks :: "real \<Rightarrow> real \<Rightarrow> landmark_set" where
  \<comment> \<open>only the two ears, for a face whose box has its corner at \<open>(l, t)\<close>\<close>
  "ear_landmarks l t = empty_landmarks\<lparr>
     leftEar := Some (mk_landmark (l + 10) (t + 100)),
     rightEar := Some (mk_landmark (l + 190) (t + 100))\<rparr>"

definition ear_face :: "real \<Rightarrow> real \<Rightarrow> face" where
  \<comment> \<open>a 200 x 220 face of which the detector located only the ears\<close>
  "ear_face l t = plain_face\<lparr>frame := Some (mk_box l t 200 220),
     landmarks := Some (ear_landmarks l t), headEulerAngleY := Some 3\<rparr>"

section \<open>Composing the verification payloads\<close>

text \<open>
  Three places compose what is sent for verification: \<^verbatim>\<open>handleFaceCaptured\<close> of the
  check-in modal (attendance), \<^verbatim>\<open>loginWithFaceRecognition\<close> of the auth context (face
  login), and \<^verbatim>\<open>authAPI.loginWithBiometric\<close>, through which every biometric login
  passes and which builds the request body \<^verbatim>\<open>cleanData\<close>. Reads of storage, of the
  location and of the session are the environment's answers and come in as arguments.
\<close>

definition nonempty :: "string option \<Rightarrow> bool" where
  \<comment> \<open>truthiness of a string property: \<^verbatim>\<open>undefined\<close>, \<^verbatim>\<open>null\<close> and \<^verbatim>\<open>''\<close> are falsy\<close>
  "nonempty v = (case v of None \<Rightarrow> False | Some s \<Rightarrow> s \<noteq> [])"

text \<open>
  An embedding read back from JSON is an array whose entries are numbers or \<^verbatim>\<open>null\<close>
  (what a NaN becomes); \<open>EmbOther\<close> stands for a truthy value that is not an array.
\<close>

type_synonym embedding = "real option list"

datatype embedding_value = EmbArray embedding | EmbOther

record face_features_obj =
  \<comment> \<open>the \<^verbatim>\<open>faceFeatures\<close> object: the faceId and the properties copied from the face\<close>
  ff_faceId :: string
  ff_observation :: face

datatype landmarks_payload = FromFaceData face | FromFaceFeatures face_features_obj

record capture_result =
  cr_faceId :: "string option"
  cr_faceEmbedding :: "embedding_value option"
  cr_faceFeatures :: "face_features_obj option"
  cr_faceData :: "face list option"
  cr_imageBase64 :: "string option"

definition usable_embedding :: "embedding_value option \<Rightarrow> embedding option" where
  \<comment> \<open>\<^verbatim>\<open>faceEmbedding && Array.isArray(faceEmbedding) && faceEmbedding.length > 0\<close>\<close>
  "usable_embedding e = (case e of Some (EmbArray (v # vs)) \<Rightarrow> Some (v # vs) | _ \<Rightarrow> None)"

definition landmarks_of :: "capture_result \<Rightarrow> landmarks_payload option" where
  \<comment> \<open>\<^verbatim>\<open>result.faceData?.[0] || result.faceFeatures || null\<close>\<close>
  "landmarks_of r =
     (case cr_faceData r of
        Some (f # fs) \<Rightarrow> Some (FromFaceData f)
      | _ \<Rightarrow> (case cr_faceFeatures r of Some ff \<Rightarrow> Some (FromFaceFeatures ff) | None \<Rightarrow> None))"

definition image_of :: "capture_result \<Rightarrow> string option" where
  \<comment> \<open>\<^verbatim>\<open>result.imageBase64 || null\<close>\<close>
  "image_of r = (if nonempty (cr_imageBase64 r) then cr_imageBase64 r else None)"

subsection \<open>\<^verbatim>\<open>FaceCheckInModal.handleFaceCaptured\<close>, up to the attendance request\<close>

record checkin_env =
  env_token :: "string option"        \<comment> \<open>the token in hand after the waits and the recovery\<close>
  env_authenticated :: bool           \<comment> \<open>\<^verbatim>\<open>user && isAuthenticated\<close>\<close>
  env_location :: "(real \<times> real) option"  \<comment> \<open>cached or fresh position, none when GPS fails\<close>
  env_fingerprint :: "string option"  \<comment> \<open>\<^verbatim>\<open>fingerprintPublicKey\<close> read from storage\<close>

datatype checkin_abort =
  FaceIdNotFound | SessionExpired | PleaseLogin | PleaseLoginAgain | LocationFailed

record attendance_payload =
  ap_latitude :: real
  ap_longitude :: real
  ap_address :: string
  ap_faceIdVerified :: bool
  ap_faceId :: string
  ap_fingerprintPublicKey :: "string option"
  ap_faceEmbedding :: "embedding option"
  ap_faceImage :: "string option"
  ap_faceLandmarks :: "landmarks_payload option"

definition handleFaceCaptured :: "capture_result \<Rightarrow> checkin_env \<Rightarrow> checkin_abort + attendance_payload" where
  \<comment> \<open>\<open>Inl\<close>: alert and \<^verbatim>\<open>onClose()\<close>; \<open>Inr\<close>: the payload handed to
      \<^verbatim>\<open>attendanceAPI.checkIn\<close> or \<^verbatim>\<open>checkOut\<close>\<close>
  "handleFaceCaptured result env =
     (if \<not> nonempty (cr_faceId result) then Inl FaceIdNotFound
      else if \<not> nonempty (env_token env)
        then (if env_authenticated env then Inl SessionExpired else Inl PleaseLogin)
      else if \<not> env_authenticated env then Inl PleaseLoginAgain
      else
        (case env_location env of
           None \<Rightarrow> Inl LocationFailed
         | Some (lat, lon) \<Rightarrow>
             (let attendancePayload =
                    \<lparr>ap_latitude = lat, ap_longitude = lon,
                     ap_address = toFixed 6 lat @ '', '' @ toFixed 6 lon,
                     ap_faceIdVerified = True,
                     ap_faceId = (case cr_faceId result of Some i \<Rightarrow> i | None \<Rightarrow> []),
                     ap_fingerprintPublicKey = env_fingerprint env,
                     ap_faceEmbedding = None, ap_faceImage = None, ap_faceLandmarks = None\<rparr>
              in Inr
                   (case usable_embedding (cr_faceEmbedding result) of
                      Some emb \<Rightarrow> attendancePayload\<lparr>ap_faceEmbedding := Some emb\<rparr>
                    | None \<Rightarrow>
                        (case image_of result of
                           Some img \<Rightarrow> attendancePayload\<lparr>ap_faceImage := Some img\<rparr>
                         | None \<Rightarrow>
                             (case landmarks_of result of
                                Some lm \<Rightarrow> attendancePayload\<lparr>ap_faceLandmarks := Some lm\<rparr>
                              | None \<Rightarrow> attendancePayload))))))"

subsection \<open>\<^verbatim>\<open>authAPI.loginWithBiometric\<close>: the request body\<close>

record biometric_login =
  bl_faceId :: "string option"
  bl_faceEmbedding :: "embedding option"
  bl_faceImage :: "string option"
  bl_faceLandmarks :: "landmarks_payload option"
  bl_fingerprintPublicKey :: "string option"
  bl_email :: "string option"
  bl_employeeNumber :: "string option"

definition no_login_data :: biometric_login where
  \<comment> \<open>the object literal \<^verbatim>\<open>{}\<close>\<close>
  "no_login_data = \<lparr>bl_faceId = None, bl_faceEmbedding = None, bl_faceImage = None,
     bl_faceLandmarks = None, bl_fingerprintPublicKey = None, bl_email = None,
     bl_employeeNumber = None\<rparr>"

definition cleanData :: "biometric_login \<Rightarrow> biometric_login" where
  \<comment> \<open>the body of the POST to \<^verbatim>\<open>/auth/login/biometric\<close>\<close>
  "cleanData data =
     (let c0 = no_login_data;
          c1 = (case bl_faceEmbedding data of
                  Some (v # vs) \<Rightarrow> c0\<lparr>bl_faceEmbedding := Some (v # vs)\<rparr>
                | _ \<Rightarrow>
                    if nonempty (bl_faceId data) then c0\<lparr>bl_faceId := bl_faceId data\<rparr>
                    else if nonempty (bl_faceImage data) then c0\<lparr>bl_faceImage := bl_faceImage data\<rparr>
                    else c0);
          c2 = (case bl_faceLandmarks data of
                  Some lm \<Rightarrow> c1\<lparr>bl_faceLandmarks := Some lm\<rparr> | None \<Rightarrow> c1);
          c3 = (if nonempty (bl_fingerprintPublicKey data)
                then c2\<lparr>bl_fingerprintPublicKey := bl_fingerprintPublicKey data\<rparr> else c2);
          c4 = (if nonempty (bl_email data) then c3\<lparr>bl_email := bl_email data\<rparr> else c3);
          c5 = (if nonempty (bl_employeeNumber data)
                then c4\<lparr>bl_employeeNumber := bl_employeeNumber data\<rparr> else c4)
      in if bl_fingerprintPublicKey c5 \<noteq> None \<and> bl_faceEmbedding c5 = None
            \<and> bl_faceId c5 = None \<and> bl_faceImage c5 = None \<and> bl_faceLandmarks c5 = None
         then c5\<lparr>bl_faceImage := None, bl_faceId := None, bl_faceEmbedding := None,
                 bl_faceLandmarks := None\<rparr>
         else c5)"

subsection \<open>\<^verbatim>\<open>AuthContext.loginWithFaceRecognition\<close>, up to the login request\<close>

datatype login_abort = FaceNotDetected | NoCurrentFaceId | NoFaceData

definition faceLoginPayload ::
  "bool \<Rightarrow> string option \<Rightarrow> capture_result option \<Rightarrow> string option \<Rightarrow> login_abort + biometric_login" where
  \<comment> \<open>\<open>Inl\<close>: the error thrown before any request; \<open>Inr\<close>: \<^verbatim>\<open>loginPayload\<close> as passed
      to \<^verbatim>\<open>authAPI.loginWithBiometric\<close>. \<open>storedKey\<close> is the stored
      \<^verbatim>\<open>fingerprintPublicKey\<close>, none when absent or unreadable\<close>
  "faceLoginPayload faceDetected currentFaceId capturedFaceData storedKey =
     (if \<not> faceDetected then Inl FaceNotDetected
      else if \<not> nonempty currentFaceId then Inl NoCurrentFaceId
      else
        (let faceLandmarksPayload = (case capturedFaceData of None \<Rightarrow> None | Some r \<Rightarrow> landmarks_of r);
             faceImageBase64 = (case capturedFaceData of None \<Rightarrow> None | Some r \<Rightarrow> image_of r);
             faceEmbedding = (case capturedFaceData of None \<Rightarrow> None
                              | Some r \<Rightarrow> usable_embedding (cr_faceEmbedding r));
             evidence =
               (case faceEmbedding of
                  Some emb \<Rightarrow>
                    (let validEmbedding = filter (\<lambda>v. v \<noteq> None) emb
                     in Some (no_login_data\<lparr>bl_faceEmbedding :=
                          Some (if validEmbedding \<noteq> [] then validEmbedding else emb)\<rparr>))
                | None \<Rightarrow>
                    (case faceImageBase64 of
                       Some img \<Rightarrow> Some (no_login_data\<lparr>bl_faceImage := Some img\<rparr>)
                     | None \<Rightarrow>
                         (case faceLandmarksPayload of
                            Some lm \<Rightarrow> Some (no_login_data\<lparr>bl_faceLandmarks := Some lm\<rparr>)
                          | None \<Rightarrow> None)))
         in case evidence of
              None \<Rightarrow> Inl NoFaceData
            | Some loginPayload \<Rightarrow>
                Inr ((if nonempty storedKey
                      then loginPayload\<lparr>bl_fingerprintPublicKey := storedKey\<rparr>
                      else loginPayload)\<lparr>bl_faceId := currentFaceId\<rparr>)))"

definition faceLoginRequest ::
  "bool \<Rightarrow> string option \<Rightarrow> capture_result option \<Rightarrow> string option \<Rightarrow> login_abort + biometric_login" where
  \<comment> \<open>what reaches the network for a face login: the body built from \<^verbatim>\<open>loginPayload\<close>\<close>
  "faceLoginRequest faceDetected currentFaceId capturedFaceData storedKey =
     (case faceLoginPayload faceDetected currentFaceId capturedFaceData storedKey of
        Inl e \<Rightarrow> Inl e
      | Inr loginPayload \<Rightarrow> Inr (cleanData loginPayload))"

definition has_face_evidence :: "capture_result option \<Rightarrow> bool" where
  \<comment> \<open>a non-empty embedding, an image or landmarks\<close>
  "has_face_evidence c =
     (case c of
        None \<Rightarrow> False
      | Some r \<Rightarrow> usable_embedding (cr_faceEmbedding r) \<noteq> None \<or> image_of r \<noteq> None
                  \<or> landmarks_of r \<noteq> None)"

definition no_capture :: capture_result where
  "no_capture = \<lparr>cr_faceId = None, cr_faceEmbedding = None, cr_faceFeatures = None,
     cr_faceData = None, cr_imageBase64 = None\<rparr>"

definition embedded_capture :: capture_result where
  \<comment> \<open>a capture with a faceId, an embedding and the detected face\<close>
  "embedded_capture = no_capture\<lparr>cr_faceId := Some ''2e6afba29'',
     cr_faceEmbedding := Some (EmbArray [Some 1, Some (- 2), Some 3]),
     cr_faceData := Some [sample_face 100 120]\<rparr>"

definition image_capture :: capture_result where
  \<comment> \<open>no embedding (model unavailable), an image and the detected face\<close>
  "image_capture = no_capture\<lparr>cr_faceId := Some ''2e6afba29'',
     cr_imageBase64 := Some ''data:image/jpeg;base64,AAAA'',
     cr_faceData := Some [sample_face 100 120]\<rparr>"

definition bare_capture :: capture_result where
  \<comment> \<open>a faceId and nothing else\<close>
  "bare_capture = no_capture\<lparr>cr_faceId := Some ''2e6afba29'', cr_faceData := Some []\<rparr>"

definition ready_env :: checkin_env where
  "ready_env = \<lparr>env_token = Some ''tok'', env_authenticated = True,
     env_location = Some (25, 45), env_fingerprint = Some ''KEY''\<rparr>"

section \<open>The device credential (\<^verbatim>\<open>BiometricSetupScreen\<close>)\<close>

text \<open>
  \<^verbatim>\<open>AsyncStorage\<close> is a map from keys to strings. The component's state and props that
  the two handlers read are one record. What the biometric prompt, the key store and the
  backend answer comes in as arguments; alerts and navigation are not modelled, only which
  way a handler ends.
\<close>

type_synonym storage = "string \<rightharpoonup> string"

definition is_space :: "char \<Rightarrow> bool" where
  \<comment> \<open>the white space and line terminators that \<^verbatim>\<open>trim\<close> removes, among the code units
      a \<^typ>\<open>char\<close> can hold (below 256): tab, line feed, vertical tab, form feed, carriage
      return, space and the no-break space U+00A0\<close>
  "is_space c =
     (c \<in> set [CHR 0x09, CHR 0x0A, CHR 0x0B, CHR 0x0C, CHR 0x0D, CHR 0x20, CHR 0xA0])"

definition trim :: "string \<Rightarrow> string" where
  "trim s = rev (dropWhile is_space (rev (dropWhile is_space s)))"

record registration =
  \<comment> \<open>the required fields of the route parameter \<^verbatim>\<open>registrationData\<close>\<close>
  reg_employeeNumber :: string
  reg_email :: string
  reg_password :: string
  reg_fullName :: string

record face_data =
  \<comment> \<open>the state object \<^verbatim>\<open>faceData\<close>\<close>
  fd_faceId :: "string option"
  fd_faceEmbedding :: "embedding_value option"
  fd_faceFeatures :: "face_features_obj option"
  fd_face :: "face option"

record screen_state =
  faceData :: "face_data option"
  fingerprintPublicKey :: "string option"   \<comment> \<open>React state: the staged credential\<close>
  fingerprintCompleted :: bool
  faceCompleted :: bool
  isModal :: bool
  registrationData :: "registration option"
  biometricAvailable :: bool

datatype enable_outcome = NotAvailable | VerificationFailed | KeysFailed | SetupComplete

definition handleEnableBiometric ::
  "bool \<Rightarrow> string option \<Rightarrow> screen_state \<Rightarrow> storage \<Rightarrow> screen_state \<times> storage \<times> enable_outcome" where
  \<comment> \<open>\<open>authOk\<close>: the biometric prompt succeeded; \<open>publicKey\<close>: the key of
      \<^verbatim>\<open>createBiometricKeys\<close>, none when it failed\<close>
  "handleEnableBiometric authOk publicKey st store =
     (if \<not> biometricAvailable st then (st, store, NotAvailable)
      else if \<not> authOk then (st, store, VerificationFailed)
      else if \<not> nonempty publicKey then (st, store, KeysFailed)
      else (let normalizedKey = trim (case publicKey of Some k \<Rightarrow> k | None \<Rightarrow> [])
            in (st\<lparr>fingerprintPublicKey := Some normalizedKey, fingerprintCompleted := True\<rparr>,
                store, SetupComplete)))"

record registration_payload =
  rp_registration :: registration
  rp_fingerprintPublicKey :: string
  rp_faceId :: string
  rp_faceEmbedding :: "embedding_value option"

record user_info =
  us_email :: "string option"
  us_employeeNumber :: "string option"
  us_json :: string                        \<comment> \<open>the text stored under \<^verbatim>\<open>user\<close>\<close>

record response =
  rs_token :: "string option"
  rs_user :: "user_info option"

text \<open>
  What \<^verbatim>\<open>authAPI.completeRegistration\<close> meets: the endpoint accepts; it answers with an
  error status and a message, which is how a conflict (duplicate face, duplicate
  credential, device already used) is reported; or no answer arrives.
\<close>

datatype registration_io = Registered response | Rejected nat string | Unreachable

record enroll_env =
  ee_featureJson :: string     \<comment> \<open>\<^verbatim>\<open>JSON.stringify\<close> of the feature object, for the last-resort hash\<close>
  ee_storageJson :: string     \<comment> \<open>\<^verbatim>\<open>JSON.stringify(faceDataForStorage)\<close>\<close>
  ee_backend :: "registration_payload \<Rightarrow> registration_io"

datatype refusal =
  CaptureFaceFirst | CompleteFingerprintFirst | RegistrationDataNotFound
  | InvalidFaceId | InvalidFingerprint

datatype staged = Refuse refusal | SaveLocally string | Submit registration_payload

datatype enroll_outcome = Refused refusal | SavedLocally | Committed | Preserved

definition faceWithFeatures :: "face_data \<Rightarrow> face" where
  \<comment> \<open>\<^verbatim>\<open>faceData.face || { landmarks: ..., frame: ..., ... }\<close>\<close>
  "faceWithFeatures fd =
     (case fd_face fd of
        Some f \<Rightarrow> f
      | None \<Rightarrow> (case fd_faceFeatures fd of Some ff \<Rightarrow> ff_observation ff | None \<Rightarrow> plain_face))"

definition enrollment_faceId :: "enroll_env \<Rightarrow> face_data \<Rightarrow> js_error + string" where
  "enrollment_faceId env fd =
     (if nonempty (fd_faceId fd) then Inr (case fd_faceId fd of Some i \<Rightarrow> i | None \<Rightarrow> [])
      else generateFaceId (Some (faceWithFeatures fd)) None (Some (ee_featureJson env)))"

definition stage :: "enroll_env \<Rightarrow> screen_state \<Rightarrow> staged" where
  \<comment> \<open>\<^verbatim>\<open>handleFaceCaptureComplete\<close> up to its first write or request\<close>
  "stage env st =
     (case faceData st of
        None \<Rightarrow> Refuse CaptureFaceFirst
      | Some fd \<Rightarrow>
          if \<not> nonempty (fd_faceId fd) \<and> fd_face fd = None then Refuse CaptureFaceFirst
          else if \<not> fingerprintCompleted st \<or> \<not> nonempty (fingerprintPublicKey st)
            then Refuse CompleteFingerprintFirst
          else
            (let key = (case fingerprintPublicKey st of Some k \<Rightarrow> k | None \<Rightarrow> [])
             in case enrollment_faceId env fd of
                  Inl e \<Rightarrow> Refuse InvalidFaceId
                | Inr faceId \<Rightarrow>
                    (case registrationData st of
                       None \<Rightarrow> if isModal st then SaveLocally key
                                else Refuse RegistrationDataNotFound
                     | Some regData \<Rightarrow>
                         if faceId = [] \<or> trim faceId = [] then Refuse InvalidFaceId
                         else if key = [] \<or> trim key = [] then Refuse InvalidFingerprint
                         else Submit \<lparr>rp_registration = regData,
                                       rp_fingerprintPublicKey = key, rp_faceId = faceId,
                                       rp_faceEmbedding = fd_faceEmbedding fd\<rparr>)))"

definition save_token :: "response \<Rightarrow> storage \<Rightarrow> storage" where
  \<comment> \<open>\<^verbatim>\<open>completeRegistration\<close> on success: \<^verbatim>\<open>if (responseData.token) { ... }\<close>\<close>
  "save_token resp store =
     (case rs_token resp of
        Some (c # cs) \<Rightarrow>
          store(''token'' \<mapsto> c # cs,
                ''user'' \<mapsto> (case rs_user resp of Some u \<Rightarrow> us_json u | None \<Rightarrow> ''{}''))
      | _ \<Rightarrow> store)"

definition save_credentials :: "response \<Rightarrow> storage \<Rightarrow> storage" where
  \<comment> \<open>\<^verbatim>\<open>biometricEmail\<close> and \<^verbatim>\<open>biometricEmployeeNumber\<close>, when the response has them\<close>
  "save_credentials resp store =
     (case rs_user resp of
        None \<Rightarrow> store
      | Some u \<Rightarrow>
          (let s1 = (if nonempty (us_email u)
                     then store(''biometricEmail'' \<mapsto> (case us_email u of Some e \<Rightarrow> e | None \<Rightarrow> []))
                     else store)
           in if nonempty (us_employeeNumber u)
              then s1(''biometricEmployeeNumber'' \<mapsto>
                        (case us_employeeNumber u of Some e \<Rightarrow> e | None \<Rightarrow> []))
              else s1))"

definition commit :: "enroll_env \<Rightarrow> string \<Rightarrow> response \<Rightarrow> storage \<Rightarrow> storage" where
  \<comment> \<open>the writes after \<^verbatim>\<open>completeRegistration\<close> has returned\<close>
  "commit env key resp store =
     (let s1 = save_token resp store;
          s2 = s1(''faceData'' \<mapsto> ee_storageJson env, ''fingerprintPublicKey'' \<mapsto> trim key,
                  ''biometricEnabled'' \<mapsto> ''true'');
          s3 = save_credentials resp s2
      in s3(''token'' := None, ''user'' := None, ''cookies'' := None))"

definition handleFaceCaptureComplete ::
  "enroll_env \<Rightarrow> screen_state \<Rightarrow> storage \<Rightarrow> screen_state \<times> storage \<times> enroll_outcome" where
  "handleFaceCaptureComplete env st store =
     (case stage env st of
        Refuse r \<Rightarrow> (st, store, Refused r)
      | SaveLocally key \<Rightarrow>
          (st\<lparr>faceCompleted := True\<rparr>,
           store(''faceData'' \<mapsto> ee_storageJson env, ''fingerprintPublicKey'' \<mapsto> key,
                 ''biometricEnabled'' \<mapsto> ''true''),
           SavedLocally)
      | Submit payload \<Rightarrow>
          (case ee_backend env payload of
             Registered resp \<Rightarrow>
               (st\<lparr>faceCompleted := True\<rparr>,
                commit env (rp_fingerprintPublicKey payload) resp store, Committed)
           | Rejected status msg \<Rightarrow> (st, store, Preserved)
           | Unreachable \<Rightarrow> (st, store, Preserved)))"

definition enrolled_storage :: storage where
  \<comment> \<open>a device on which an earlier enrollment stored its key, with a trailing line break\<close>
  "enrolled_storage = [''fingerprintPublicKey'' \<mapsto> ''OLDKEY'' @ [CHR 0x0A], ''biometricEnabled'' \<mapsto> ''true'']"

definition new_account :: registration where
  "new_account = \<lparr>reg_employeeNumber = ''1001'', reg_email = ''a@b.c'',
     reg_password = ''pw'', reg_fullName = ''A B''\<rparr>"

definition fresh_screen :: screen_state where
  \<comment> \<open>the registration flow after the face capture, before the fingerprint step\<close>
  "fresh_screen = \<lparr>faceData = Some \<lparr>fd_faceId = Some ''2e6afba29'', fd_faceEmbedding = None,
                                  fd_faceFeatures = None, fd_face = Some (sample_face 100 120)\<rparr>,
     fingerprintPublicKey = None, fingerprintCompleted = False, faceCompleted = False,
     isModal = False, registrationData = Some new_account, biometricAvailable = True\<rparr>"

definition staged_screen :: screen_state where
  \<comment> \<open>after \<^verbatim>\<open>handleEnableBiometric\<close> with the new key \<open>NEWKEY\<close>\<close>
  "staged_screen = fst (handleEnableBiometric True (Some ('' NEWKEY'' @ [CHR 0x0A])) fresh_screen
                         enrolled_storage)"

definition duplicate_face_backend :: enroll_env where
  \<comment> \<open>the endpoint answers 409 to every request\<close>
  "duplicate_face_backend = \<lparr>ee_featureJson = ''{}'', ee_storageJson = ''{}'',
     ee_backend = (\<lambda>p. Rejected 409 ''duplicate-face'')\<rparr>"

section \<open>Verified properties\<close>

subsection \<open>The quality gate\<close>




subsection \<open>The centring check\<close>




subsection \<open>The centring tracker\<close>

lemma observe_count:
  "centeredCount (observe ob s) = (if obs_centered ob then centeredCount s + 1 else 0)"
  by (cases ob; cases "fst ob")
     (simp_all add: observe_def obs_centered_def processDetection_def clearCaptureTimer_def Let_def)

lemma observe_faceCentered:
  "faceCentered (observe ob s) = (obs_centered ob \<and> 1 \<le> centeredCount s)"
  by (cases ob; cases "fst ob")
     (auto simp add: observe_def obs_centered_def processDetection_def clearCaptureTimer_def Let_def)

lemma tracker_snoc: "tracker (obs @ [ob]) s = observe ob (tracker obs s)"
  by (simp add: tracker_def)

lemma centred_run_snoc:
  "centred_run (obs @ [ob]) = (if obs_centered ob then centred_run obs + 1 else 0)"
  by (simp add: centred_run_def)

lemma tracker_count: "centeredCount (tracker obs mounted) = centred_run obs"
proof (induction obs rule: rev_induct)
  case Nil
  show ?case by (simp add: tracker_def centred_run_def mounted_def)
next
  case (snoc ob obs)
  then show ?case by (simp add: tracker_snoc centred_run_snoc observe_count)
qed

lemma tracker_faceCentered: "faceCentered (tracker obs mounted) = (2 \<le> centred_run obs)"
proof (cases obs rule: rev_cases)
  case Nil
  then show ?thesis by (simp add: tracker_def centred_run_def mounted_def)
next
  case (snoc pre ob)
  then show ?thesis
    by (auto simp add: tracker_snoc centred_run_snoc observe_faceCentered tracker_count)
qed

text \<open>
  Claim C6. For every sequence of detection observations processed from the mounted
  screen, the counter equals the number of centred observations that end the sequence,
  and the screen shows the face as centred exactly when that number is at least two, that
  is, when the last two observations were both centred. Each centred observation adds one
  to the counter; each observation that is not centred, or has no face, sets it to zero.
\<close>

theorem centering_tracker_two_consecutive:
  "centeredCount (tracker obs mounted) = centred_run obs
   \<and> faceCentered (tracker obs mounted) = (2 \<le> centred_run obs)
   \<and> centeredCount (observe ob s) = (if obs_centered ob then centeredCount s + 1 else 0)"
  by (simp add: tracker_count tracker_faceCentered observe_count)

theorem centering_tracker_two_consecutive_witness:
  "\<not> faceCentered (tracker [([good_face], 400, 460)] mounted)
   \<and> faceCentered (tracker [([good_face], 400, 460), ([good_face], 400, 460)] mounted)
   \<and> centeredCount
        (tracker [([good_face], 400, 460), ([good_face], 400, 460), ([], 400, 460)] mounted) = 0"
proof -
  have c: "obs_centered ([good_face], 400, 460)"
    by (simp add: obs_centered_def isFaceCentered_def good_face_def plain_face_def mk_box_def
        empty_box_def frame_or_bounds_def num_or_def js_div_def)
  have n: "\<not> obs_centered ([], 400, 460)" by (simp add: obs_centered_def)
  show ?thesis
    using centering_tracker_two_consecutive [of "[([good_face], 400, 460)]"]
      centering_tracker_two_consecutive [of "[([good_face], 400, 460), ([good_face], 400, 460)]"]
      centering_tracker_two_consecutive
        [of "[([good_face], 400, 460), ([good_face], 400, 460), ([], 400, 460)]"]
      c n
    by (simp add: centred_run_def)
qed

subsection \<open>The capture orchestrator\<close>

lemmas handler_defs = onFocus_def onBlur_def render_def startTimerFired_def intervalTick_def
  photoTaken_def detectionDone_def processDetection_def timerFired_def waitOver_def
  startCapture_def captureDone_def captureFaceFeaturesFromPhoto_def captureFaceFeatures_def detectFaces_def
  clearCaptureTimer_def pendingDetection_def closure_isCapturing_def
  closure_isScreenFocused_def closure_hasPermission_def

lemmas good_shot_defs = good_shot_def good_face_def plain_face_def mk_box_def empty_box_def
  isFaceCentered_def validateFaceQuality_def frame_or_bounds_def num_or_def js_or_def
  truthy_def js_div_def size_width_def size_height_def accepted_def rejected_def

lemma processDetection_capture_fields:
  "captureWaiting (processDetection r s) = captureWaiting s
   \<and> captureRunning (processDetection r s) = captureRunning s
   \<and> captures (processDetection r s) = captures s
   \<and> hasCaptured (processDetection r s) = hasCaptured s
   \<and> capturingEntered (processDetection r s) = capturingEntered s"
  by (simp add: processDetection_def clearCaptureTimer_def Let_def
      split: detection_result.splits list.splits)

lemma processDetection_photo_ok: "photo_ok s \<Longrightarrow> photo_ok (processDetection r s)"
  by (simp add: processDetection_def clearCaptureTimer_def Let_def photo_ok_def
      split: detection_result.splits list.splits)

lemma step_single_shot:
  assumes "e \<noteq> Focus" and "single_shot s"
  shows "single_shot (step e s)"
proof (cases e)
  case (DetectionDone r)
  then show ?thesis using assms(2)
    by (simp add: detectionDone_def single_shot_def processDetection_capture_fields)
next
  case (WaitOver cam)
  then show ?thesis using assms(2)
    by (auto simp add: waitOver_def startCapture_def captureFaceFeaturesFromPhoto_def
        captureFaceFeatures_def closure_isCapturing_def closure_isScreenFocused_def
        single_shot_def Let_def split: option.splits if_splits)
next
  case (CaptureDone outcome)
  then show ?thesis using assms(2)
    by (auto simp add: captureDone_def single_shot_def Let_def
        split: option.splits capture_outcome.splits if_splits)
next
  case (TimerFired cam)
  then show ?thesis using assms(2)
    by (auto simp add: timerFired_def startCapture_def captureFaceFeaturesFromPhoto_def
        captureFaceFeatures_def pendingDetection_def single_shot_def Let_def
        closure_isCapturing_def closure_isScreenFocused_def closure_hasPermission_def
        split: option.splits if_splits)
qed (use assms in \<open>auto simp add: single_shot_def onBlur_def render_def startTimerFired_def
      intervalTick_def photoTaken_def detectFaces_def clearCaptureTimer_def Let_def
      split: if_splits\<close>)

lemma step_photo_ok: "photo_ok s \<Longrightarrow> photo_ok (step e s)"
proof (cases e)
  case (DetectionDone r)
  assume "photo_ok s"
  then have "photo_ok (processDetection r s)" by (rule processDetection_photo_ok)
  then show ?thesis using DetectionDone \<open>photo_ok s\<close>
    by (simp add: detectionDone_def photo_ok_def)
qed (auto simp add: photo_ok_def handler_defs Let_def
      split: option.splits capture_outcome.splits if_splits)

lemma run_snoc: "run (evs @ [e]) s = step e (run evs s)"
  by (simp add: run_def)

lemma run_single_shot: "Focus \<notin> set evs \<Longrightarrow> single_shot (run evs mounted)"
proof (induction evs rule: rev_induct)
  case Nil
  show ?case by (simp add: run_def single_shot_def mounted_def)
next
  case (snoc e evs)
  then have "e \<noteq> Focus" and "single_shot (run evs mounted)" by auto
  then show ?case by (simp add: run_snoc step_single_shot)
qed

lemma run_photo_ok: "photo_ok (run evs mounted)"
proof (induction evs rule: rev_induct)
  case Nil
  show ?case by (simp add: run_def photo_ok_def mounted_def)
next
  case (snoc e evs)
  then show ?case by (simp add: run_snoc step_photo_ok)
qed

lemma timerFired_blocked:
  "hasCaptured s \<Longrightarrow> capturingEntered (timerFired cam s) = capturingEntered s"
  by (simp add: timerFired_def Let_def)

lemma flag_kept:
  assumes "photo_ok s" and "hasCaptured s" and "e \<noteq> Focus" and "e \<noteq> CaptureDone CaptureFailed"
  shows "hasCaptured (step e s)"
proof (cases e)
  case (DetectionDone r)
  then show ?thesis using assms(2)
    by (simp add: detectionDone_def processDetection_capture_fields)
next
  case (WaitOver cam)
  then show ?thesis using assms(1,2)
    by (auto simp add: waitOver_def startCapture_def captureFaceFeaturesFromPhoto_def
        captureFaceFeatures_def closure_isCapturing_def closure_isScreenFocused_def
        photo_ok_def Let_def split: option.splits if_splits)
next
  case (CaptureDone outcome)
  then show ?thesis using assms(2,4)
    by (cases outcome) (auto simp add: captureDone_def Let_def split: option.splits)
qed (use assms in \<open>auto simp add: onBlur_def render_def startTimerFired_def
      intervalTick_def photoTaken_def detectFaces_def clearCaptureTimer_def timerFired_def Let_def
      split: if_splits\<close>)

text \<open>
  Claim C4, as stated, fails: the capture flag does not block re-entry for the rest of the
  session. When a capture attempt throws, its catch block clears the flag ("reset to allow
  retry"), detection restarts, and a later timer firing takes the capture branch a second
  time, with no focus event in between.
\<close>

theorem capture_reentry_counterexample:
  "Focus \<notin> set retry_trace
   \<and> hasCaptured (run first_attempt mounted)
   \<and> capturingEntered (run first_attempt mounted) = 1
   \<and> capturingEntered (run retry_trace mounted) = 2"
  by (simp add: retry_trace_def first_attempt_def run_def mounted_def handler_defs
      good_shot_defs Let_def)

text \<open>
  Claim C4, amended. In every session (any sequence of events without a new focus),
  at most one capture runs to its successful end. While the capture flag is set, a firing
  of the capture timer does not take the capture branch; and the flag, once set, is
  cleared by no event of the session other than a capture attempt that ends in its catch
  block.
\<close>

theorem capture_single_shot:
  assumes "Focus \<notin> set evs"
  shows "captures (run evs mounted) \<le> 1
     \<and> (hasCaptured (run evs mounted) \<longrightarrow>
          capturingEntered (step (TimerFired cam) (run evs mounted))
            = capturingEntered (run evs mounted)
          \<and> (e \<noteq> Focus \<and> e \<noteq> CaptureDone CaptureFailed
               \<longrightarrow> hasCaptured (step e (run evs mounted))))"
proof -
  have "single_shot (run evs mounted)" using assms by (rule run_single_shot)
  then have a: "captures (run evs mounted) \<le> 1" by (simp add: single_shot_def)
  have b: "hasCaptured (run evs mounted) \<Longrightarrow>
        capturingEntered (step (TimerFired cam) (run evs mounted))
          = capturingEntered (run evs mounted)"
    by (simp add: timerFired_blocked)
  have c: "hasCaptured (run evs mounted) \<Longrightarrow> e \<noteq> Focus \<Longrightarrow> e \<noteq> CaptureDone CaptureFailed
        \<Longrightarrow> hasCaptured (step e (run evs mounted))"
    using flag_kept [OF run_photo_ok] by blast
  from a b c show ?thesis by blast
qed

theorem capture_single_shot_witness:
  "Focus \<notin> set first_attempt
   \<and> captures (run first_attempt mounted) \<le> 1
   \<and> hasCaptured (run first_attempt mounted)
   \<and> capturingEntered (step (TimerFired True) (run first_attempt mounted)) = 1
   \<and> hasCaptured (step (DetectionDone good_shot) (run first_attempt mounted))"
proof -
  have f: "Focus \<notin> set first_attempt" by (simp add: first_attempt_def)
  have h: "hasCaptured (run first_attempt mounted)"
    and n: "capturingEntered (run first_attempt mounted) = 1"
    by (simp_all add: first_attempt_def run_def mounted_def handler_defs good_shot_defs Let_def)
  from capture_single_shot [OF f, of True "DetectionDone good_shot"] f h n
  show ?thesis by simp
qed

text \<open>
  Claim C5 fails on the code. The session below is blurred while the settle timer is armed
  (Stabilizing) and a detection call is in flight. The blur clears the timer; the
  detector's answer, arriving after the blur, arms a new one; its callback and
  \<^verbatim>\<open>captureFaceFeaturesFromPhoto\<close> test \<^verbatim>\<open>isScreenFocused\<close> of the render that created
  them, which is still true; the capture runs to its end with the screen out of focus.
\<close>

theorem capture_after_blur:
  "timerLive (run stabilizing mounted)
   \<and> \<not> hasCaptured (run stabilizing mounted)
   \<and> \<not> timerLive (run (stabilizing @ [Blur]) mounted)
   \<and> Focus \<notin> set (stabilizing @ Blur # after_blur)
   \<and> \<not> isScreenFocused (run (stabilizing @ Blur # after_blur) mounted)
   \<and> captures (run (stabilizing @ Blur # after_blur) mounted) = 1"
  by (simp add: stabilizing_def after_blur_def run_def mounted_def handler_defs
      good_shot_defs Let_def)


subsection \<open>Rounding to doubles\<close>

text \<open>
  \<open>binary_exponent\<close> finds the binade of a positive number, and \<open>fl x\<close> is a multiple of
  the spacing of the doubles in the binade of \<open>x\<close>, at most half that spacing away from
  \<open>x\<close>: a nearest double.
\<close>

lemma bit_length_bounds: "0 < n \<Longrightarrow> 2 ^ (bit_length n - 1) \<le> n \<and> n < 2 ^ bit_length n"
proof (induction n rule: bit_length.induct)
  case (1 n)
  show ?case
  proof (cases "n div 2 = 0")
    case True
    with 1(2) have "n = 1" by (simp add: div_eq_0_iff) 
    then show ?thesis by (simp add: bit_length.simps)
  next
    case False
    then have p: "0 < n div 2" by simp
    from 1(1) [OF _ p] 1(2) have ih: "2 ^ (bit_length (n div 2) - 1) \<le> n div 2" "n div 2 < 2 ^ bit_length (n div 2)"
      by simp_all
    have bl: "bit_length n = Suc (bit_length (n div 2))" using 1(2) by (simp add: bit_length.simps [of n])
    have pos: "0 < bit_length (n div 2)" using p by (simp add: bit_length.simps [of "n div 2"])
    then obtain k where k: "bit_length (n div 2) = Suc k" by (cases "bit_length (n div 2)") auto
    from ih k have "2 ^ k \<le> n div 2" "n div 2 < 2 ^ Suc k" by simp_all
    then have "2 ^ Suc k \<le> n" "n < 2 ^ Suc (Suc k)" by (simp_all; linarith)+
    then show ?thesis using bl k by simp
  qed
qed

lemma pow2_pos: "0 < pow2 e"
  by (simp add: pow2_def)

lemma pow2_nat: "pow2 (int k) = 2 ^ k"
  by (simp add: pow2_def)

lemma pow2_neg_nat: "pow2 (- int k) = 1 / 2 ^ k"
  by (cases k) (simp_all add: pow2_def nat_add_distrib)

lemma pow2_Suc_neg: "pow2 (- int (Suc k) + 1) = 1 / 2 ^ k"
proof -
  have "- int (Suc k) + 1 = - int k" by simp
  then show ?thesis by (simp only: pow2_neg_nat)
qed

lemma binary_exponent_bounds:
  assumes "0 < x"
  shows "pow2 (binary_exponent x) \<le> x \<and> x < pow2 (binary_exponent x + 1)"
proof (cases "1 \<le> x")
  case True
  define n where "n = nat \<lfloor>x\<rfloor>"
  have n1: "0 < n" using True by (simp add: n_def)
  have nx: "real n \<le> x" "x < real n + 1" using True by (simp_all add: n_def; linarith)+
  from bit_length_bounds [OF n1] have b: "2 ^ (bit_length n - 1) \<le> n" "n < 2 ^ bit_length n"
    by simp_all
  have pos: "0 < bit_length n" using n1 by (simp add: bit_length.simps [of n])
  then obtain k where k: "bit_length n = Suc k" by (cases "bit_length n") auto
  have e: "binary_exponent x = int k" using True k by (simp add: binary_exponent_def n_def)
  from b k have "(2::nat) ^ k \<le> n" "n + 1 \<le> 2 ^ Suc k" by simp_all
  then have "(2::real) ^ k \<le> real n" "real n + 1 \<le> 2 ^ Suc k"
    by (metis of_nat_le_iff of_nat_numeral of_nat_power, metis of_nat_le_iff of_nat_numeral of_nat_power of_nat_Suc Suc_eq_plus1 of_nat_add of_nat_1)
  with nx have "(2::real) ^ k \<le> x" "x < 2 ^ Suc k" by linarith+
  moreover have "pow2 (int k) = 2 ^ k" "pow2 (int k + 1) = 2 ^ Suc k"
    using pow2_nat [of k] pow2_nat [of "Suc k"] by (simp_all add: add.commute)
  ultimately show ?thesis using e by simp
next
  case False
  define y where "y = 1 / x"
  have y1: "1 < y" using False assms by (simp add: y_def)
  define m where "m = nat (\<lceil>y\<rceil> - 1)"
  have c2: "2 \<le> \<lceil>y\<rceil>" using y1 by linarith
  then have m1: "0 < m" by (simp add: m_def)
  have my: "real m < y" "y \<le> real m + 1" using c2 by (simp_all add: m_def; linarith)+
  from bit_length_bounds [OF m1] have b: "2 ^ (bit_length m - 1) \<le> m" "m < 2 ^ bit_length m"
    by simp_all
  have pos: "0 < bit_length m" using m1 by (simp add: bit_length.simps [of m])
  then obtain k where k: "bit_length m = Suc k" by (cases "bit_length m") auto
  have e: "binary_exponent x = - int (Suc k)"
    using False k by (simp add: binary_exponent_def m_def y_def)
  from b k have "(2::nat) ^ k \<le> m" "m + 1 \<le> 2 ^ Suc k" by simp_all
  then have "(2::real) ^ k \<le> real m" "real m + 1 \<le> 2 ^ Suc k"
    by (metis of_nat_le_iff of_nat_numeral of_nat_power, metis of_nat_le_iff of_nat_numeral of_nat_power of_nat_Suc Suc_eq_plus1 of_nat_add of_nat_1)
  with my have yb: "(2::real) ^ k < y" "y \<le> 2 ^ Suc k" by linarith+
  have xy: "x = 1 / y" using assms by (simp add: y_def)
  have "1 / 2 ^ Suc k \<le> x"
    unfolding xy using yb(2) y1 by (simp add: frac_le)
  moreover have "x < 1 / 2 ^ k"
    unfolding xy using yb(1) by (simp add: frac_less2)
  ultimately show ?thesis
    unfolding e pow2_Suc_neg pow2_neg_nat by simp
qed

lemma round_even_close: "\<bar>of_int (round_even y) - y\<bar> \<le> 1 / 2"
  unfolding round_even_def Let_def by (auto simp: abs_if; linarith)

lemma fl_close:
  "\<bar>fl x - x\<bar> \<le> pow2 (max (binary_exponent \<bar>x\<bar>) (- 1022) - 52) / 2"
proof (cases "x = 0")
  case True
  then show ?thesis using pow2_pos [of "max (binary_exponent \<bar>x\<bar>) (- 1022) - 52"]
    by (simp add: fl_def)
next
  case False
  define u where "u = pow2 (max (binary_exponent \<bar>x\<bar>) (- 1022) - 52)"
  have u: "0 < u" by (simp add: u_def pow2_pos)
  have "fl x - x = (of_int (round_even (x / u)) - x / u) * u"
    using False u by (simp add: fl_def u_def Let_def algebra_simps)
  then have "\<bar>fl x - x\<bar> = \<bar>of_int (round_even (x / u)) - x / u\<bar> * u"
    using u by (simp add: abs_mult)
  also have "\<dots> \<le> (1 / 2) * u"
    using round_even_close [of "x / u"] u by (simp add: mult_right_mono)
  finally show ?thesis by (simp add: u_def)
qed

lemma fl_grid: "\<exists>k. fl x = of_int k * pow2 (max (binary_exponent \<bar>x\<bar>) (- 1022) - 52)"
  by (cases "x = 0") (auto simp add: fl_def Let_def intro: exI [of _ 0])

subsection \<open>The FaceId hash\<close>

lemmas face_defs = sample_face_def five_landmarks_def mk_landmark_def plain_face_def mk_box_def
  empty_box_def empty_landmarks_def

lemmas feature_defs = face_features_def landmark_features_def frame_features_def
  faceCenterX_def faceCenterY_def
  hash_left_def hash_top_def hash_width_def hash_height_def hash_frame_def face_landmarks_def
  getLandmarkPos_def relative_pos_def eye_distance_def num_or_def truthy_def js_or_def
  round2_def js_round_def js_square_def js_sqrt_def normalized_angle_def
  rotation_feature_def nullish_or_def

lemmas fl_eval = fl_def binary_exponent_def pow2_def round_even_def bit_length.simps

lemma replicate_small:
  "replicate 1 c = [c]" "replicate 2 c = [c, c]" "replicate 3 c = [c, c, c]"
  "replicate 4 c = [c, c, c, c]" "replicate 5 c = [c, c, c, c, c]"
  by (simp_all add: numeral_eq_Suc)

lemmas fixed_eval = toFixed_def scaled_round_def fixed_string_def Let_def radix_digits.simps
  digit_char_def replicate_small

lemmas hash_eval = string_hash_def hash_step_def shl5_def hex_abs_def radix_digits.simps
  digit_char_def

lemma sqrt_6400: "sqrt 6400 = 80"
  by (rule real_sqrt_unique) simp_all

text \<open>
  Rounding to doubles is visible in the features. One tenth is not a double, and the
  double next to \<open>201 / 200\<close> lies below it: its product with 100 rounds to a double below
  \<open>100.5\<close>, so a 201 x 200 box gets the aspect feature \<open>1\<close>, not \<open>1.01\<close>.
\<close>

lemma fl_tenth: "fl (1 / 10) = 3602879701896397 / 2 ^ 55"
  by (simp add: fl_eval Let_def)

lemma fl_small_integers: "fl 0 = 0" "fl 1 = 1" "fl 200 = 200" "fl (- 7 / 2) = - 7 / 2"
  by (simp_all add: fl_eval Let_def)

lemma round2_of_rounded_product: "round2 (fl (201 / 200)) = 1"
  by (simp add: round2_def js_round_def fl_eval Let_def)

lemma sample_features:
  "face_features (sample_face 100 120) =
     [- 3602879701896397 / 2 ^ 54, - 1228254443828317 / 2 ^ 53, 3602879701896397 / 2 ^ 54,
      - 1228254443828317 / 2 ^ 53, 0, 3275345183542179 / 2 ^ 56, - 5404319552844595 / 2 ^ 55,
      1228254443828317 / 2 ^ 52, 5404319552844595 / 2 ^ 55, 1228254443828317 / 2 ^ 52,
      3602879701896397 / 2 ^ 53, 8196551321814303 / 2 ^ 53, 1170935903116329 / 2 ^ 51]"
  apply (simp add: face_defs feature_defs Let_def)
  apply (simp add: fl_eval sqrt_6400)
  done


lemma sample_string:
  "featureString (sample_face 100 120) =
     ''-0.2000,-0.1364,0.2000,-0.1364,0.0000,0.0455,-0.1500,0.2727,0.1500,0.2727,0.4000,0.9100,0.5200''"
  unfolding featureString_def sample_features by (simp add: fixed_eval)










subsection \<open>Translation invariance of the FaceId\<close>

lemma landmark_features_positions:
  "landmark_features fd =
     (let w = hash_width fd; h = hash_height fd; ps = hashed_positions fd
      in concat (map (relative_pos (faceCenterX fd) (faceCenterY fd) w h) ps)
         @ eye_distance w (ps ! 0) (ps ! 1))"
  by (simp add: landmark_features_def hashed_positions_def Let_def)

lemma relative_pos_shifted:
  "relative_pos (cx + dx) (cy + dy) w h (shifted dx dy p) = relative_pos cx cy w h p"
  by (cases p) (auto simp add: relative_pos_def shifted_def)

lemma eye_distance_shifted:
  "eye_distance w (shifted dx dy p) (shifted dx dy q) = eye_distance w p q"
  by (cases p; cases q) (auto simp add: eye_distance_def shifted_def)

lemma length_hashed_positions: "length (hashed_positions fd) = 5"
  by (simp add: hashed_positions_def Let_def)

lemma landmark_features_shifted:
  assumes "hash_width f2 = hash_width f1" and "hash_height f2 = hash_height f1"
    and "faceCenterX f2 = faceCenterX f1 + dx" and "faceCenterY f2 = faceCenterY f1 + dy"
    and "hashed_positions f2 = map (shifted dx dy) (hashed_positions f1)"
  shows "landmark_features f2 = landmark_features f1"
proof -
  have "concat (map (relative_pos (faceCenterX f1 + dx) (faceCenterY f1 + dy)
                  (hash_width f1) (hash_height f1))
                (map (shifted dx dy) (hashed_positions f1)))
          = concat (map (relative_pos (faceCenterX f1) (faceCenterY f1)
                  (hash_width f1) (hash_height f1))
                (hashed_positions f1))"
    by (simp add: comp_def relative_pos_shifted)
  moreover have "eye_distance (hash_width f1) (map (shifted dx dy) (hashed_positions f1) ! 0)
                   (map (shifted dx dy) (hashed_positions f1) ! 1)
                 = eye_distance (hash_width f1) (hashed_positions f1 ! 0) (hashed_positions f1 ! 1)"
    by (simp add: length_hashed_positions eye_distance_shifted)
  ultimately show ?thesis
    by (simp add: landmark_features_positions assms Let_def)
qed

lemma hashed_landmark_landmarks: "hashed_landmark_present fd \<Longrightarrow> landmarks fd \<noteq> None"
proof -
  have "landmarks fd = None \<Longrightarrow> \<not> hashed_landmark_present fd"
    by (simp add: hashed_landmark_present_def hashed_positions_def face_landmarks_def
        empty_landmarks_def getLandmarkPos_def Let_def)
  then show "hashed_landmark_present fd \<Longrightarrow> landmarks fd \<noteq> None" by blast
qed

lemma hashed_landmark_features: "hashed_landmark_present fd \<Longrightarrow> landmark_features fd \<noteq> []"
proof -
  assume "hashed_landmark_present fd"
  then obtain p where p: "p \<in> set (hashed_positions fd)" and "p \<noteq> None"
    by (auto simp add: hashed_landmark_present_def list_ex_iff)
  then obtain x y where "p = Some (x, y)" by (cases p) auto
  with p have "concat (map (relative_pos (faceCenterX fd) (faceCenterY fd)
       (hash_width fd) (hash_height fd)) (hashed_positions fd)) \<noteq> []"
    by (auto simp add: relative_pos_def intro!: bexI [of _ p])
  then show ?thesis by (simp add: landmark_features_positions Let_def)
qed

lemma hashed_landmark_shifted:
  assumes "hashed_landmark_present f1"
    and "hashed_positions f2 = map (shifted dx dy) (hashed_positions f1)"
  shows "hashed_landmark_present f2"
proof -
  from assms(1) obtain p where "p \<in> set (hashed_positions f1)" and "p \<noteq> None"
    by (auto simp add: hashed_landmark_present_def list_ex_iff)
  then have "shifted dx dy p \<in> set (hashed_positions f2)" and "shifted dx dy p \<noteq> None"
    using assms(2) by (auto simp add: shifted_def split: option.splits)
  then show ?thesis by (auto simp add: hashed_landmark_present_def list_ex_iff)
qed

lemma sample_id: "generateFaceIdFromLandmarks (sample_face 100 120) = ''2e6afba29''"
  unfolding generateFaceIdFromLandmarks_def sample_string by (simp add: hash_eval)

lemma ear_features:
  "face_features (ear_face 100 120) =
     [1 / 2, 2476979795053773 / 2 ^ 52, 8196551321814303 / 2 ^ 53, 1170935903116329 / 2 ^ 51,
      8196551321814303 / 2 ^ 53, 1170935903116329 / 2 ^ 51]"
  "face_features (ear_face 107 115) =
     [607985949695017 / 2 ^ 50, 1170935903116329 / 2 ^ 51, 8196551321814303 / 2 ^ 53,
      1170935903116329 / 2 ^ 51, 8196551321814303 / 2 ^ 53, 1170935903116329 / 2 ^ 51]"
  apply (simp_all add: ear_face_def ear_landmarks_def face_defs feature_defs Let_def)
  apply (simp_all add: fl_eval)
  done

lemma ear_strings:
  "featureString (ear_face 100 120) = ''0.5000,0.5500,0.9100,0.5200,0.9100,0.5200''"
  "featureString (ear_face 107 115) = ''0.5400,0.5200,0.9100,0.5200,0.9100,0.5200''"
  unfolding featureString_def ear_features by (simp_all add: fixed_eval)

lemma ear_ids:
  "generateFaceIdFromLandmarks (ear_face 100 120) = ''17667b39b''"
  "generateFaceIdFromLandmarks (ear_face 107 115) = ''2430832ac''"
  unfolding generateFaceIdFromLandmarks_def ear_strings by (simp_all add: hash_eval)

text \<open>
  Claim C8, as stated, fails: landmarks present are not enough. When the detector located
  landmarks but none of the five the hash reads (here only the ears), no landmark feature
  is pushed and the function falls back to the features of the box, \<^verbatim>\<open>left / width\<close> and
  \<^verbatim>\<open>top / height\<close> among them, which change when the face moves. The two observations
  below differ only by the translation \<open>(7, -5)\<close> of the box and of every landmark, with the
  same box size, scores and angles, and get different FaceIds.
\<close>

theorem faceId_translation_counterexample:
  "landmarks_present (ear_face 100 120)
   \<and> all_positions (ear_face 107 115) = map (shifted 7 (- 5)) (all_positions (ear_face 100 120))
   \<and> hash_left (ear_face 107 115) = hash_left (ear_face 100 120) + 7
   \<and> hash_top (ear_face 107 115) = hash_top (ear_face 100 120) + (- 5)
   \<and> hash_width (ear_face 107 115) = hash_width (ear_face 100 120)
   \<and> hash_height (ear_face 107 115) = hash_height (ear_face 100 120)
   \<and> smilingProbability (ear_face 107 115) = smilingProbability (ear_face 100 120)
   \<and> headEulerAngleY (ear_face 107 115) = headEulerAngleY (ear_face 100 120)
   \<and> generateFaceId (Some (ear_face 100 120)) None None = Inr ''17667b39b''
   \<and> generateFaceId (Some (ear_face 107 115)) None None = Inr ''2430832ac''"
proof -
  have p: "landmarks_present (ear_face 100 120)"
    by (simp add: landmarks_present_def all_positions_def face_landmarks_def getLandmarkPos_def
        ear_face_def ear_landmarks_def face_defs Let_def)
  have s: "all_positions (ear_face 107 115)
             = map (shifted 7 (- 5)) (all_positions (ear_face 100 120))"
    by (simp add: all_positions_def face_landmarks_def getLandmarkPos_def shifted_def
        ear_face_def ear_landmarks_def face_defs Let_def)
  have b: "hash_left (ear_face 107 115) = hash_left (ear_face 100 120) + 7"
    "hash_top (ear_face 107 115) = hash_top (ear_face 100 120) + (- 5)"
    "hash_width (ear_face 107 115) = hash_width (ear_face 100 120)"
    "hash_height (ear_face 107 115) = hash_height (ear_face 100 120)"
    by (simp_all add: hash_width_def hash_height_def hash_left_def hash_top_def hash_frame_def
        num_or_def truthy_def ear_face_def face_defs Let_def)
  have c: "smilingProbability (ear_face 107 115) = smilingProbability (ear_face 100 120)"
    "headEulerAngleY (ear_face 107 115) = headEulerAngleY (ear_face 100 120)"
    by (simp_all add: ear_face_def face_defs)
  have l: "landmarks (ear_face 100 120) \<noteq> None" "landmarks (ear_face 107 115) \<noteq> None"
    by (simp_all add: ear_face_def)
  have i: "generateFaceId (Some (ear_face 100 120)) None None = Inr ''17667b39b''"
    "generateFaceId (Some (ear_face 107 115)) None None = Inr ''2430832ac''"
    using l by (simp_all add: generateFaceId_def ear_ids)
  from p s b c i show ?thesis by blast
qed

text \<open>
  Claim C8, amended. Take two face observations, the first with at least one of the five
  hashed landmarks (eyes, nose base, mouth corners) located, such that the second has the
  same box size, smiling probability and head angle, and its box centre, as the function
  computes it, and every hashed landmark are those of the first moved by the same
  \<open>(dx, dy)\<close>. Then \<^verbatim>\<open>generateFaceId\<close> returns the same FaceId for both, whatever image
  and serialisation accompany them.
\<close>

theorem faceId_translation_invariant:
  assumes "hashed_landmark_present f1"
    and "hash_width f2 = hash_width f1" and "hash_height f2 = hash_height f1"
    and "faceCenterX f2 = faceCenterX f1 + dx" and "faceCenterY f2 = faceCenterY f1 + dy"
    and "hashed_positions f2 = map (shifted dx dy) (hashed_positions f1)"
    and "smilingProbability f2 = smilingProbability f1"
    and "headEulerAngleY f2 = headEulerAngleY f1"
  shows "generateFaceId (Some f2) image2 json2 = generateFaceId (Some f1) image1 json1"
proof -
  have lf: "landmark_features f2 = landmark_features f1"
    using assms(2-6) by (rule landmark_features_shifted)
  have ne: "landmark_features f1 \<noteq> []"
    using assms(1) by (rule hashed_landmark_features)
  have "face_features f2 = face_features f1"
    using lf ne assms(2,3,7,8) by (simp add: face_features_def Let_def)
  then have "generateFaceIdFromLandmarks f2 = generateFaceIdFromLandmarks f1"
    by (simp add: generateFaceIdFromLandmarks_def featureString_def)
  moreover have "landmarks f1 \<noteq> None"
    using assms(1) by (rule hashed_landmark_landmarks)
  moreover have "landmarks f2 \<noteq> None"
    using hashed_landmark_shifted [OF assms(1,6)] by (rule hashed_landmark_landmarks)
  ultimately show ?thesis by (simp add: generateFaceId_def)
qed

theorem faceId_translation_invariant_witness:
  "hashed_landmark_present (sample_face 100 120)
   \<and> hash_left (sample_face 107 115) = hash_left (sample_face 100 120) + 7
   \<and> hash_top (sample_face 107 115) = hash_top (sample_face 100 120) + (- 5)
   \<and> faceCenterX (sample_face 107 115) = faceCenterX (sample_face 100 120) + 7
   \<and> faceCenterY (sample_face 107 115) = faceCenterY (sample_face 100 120) + (- 5)
   \<and> hashed_positions (sample_face 107 115)
       = map (shifted 7 (- 5)) (hashed_positions (sample_face 100 120))
   \<and> generateFaceId (Some (sample_face 107 115)) None None = Inr ''2e6afba29''
   \<and> generateFaceId (Some (sample_face 100 120)) None None = Inr ''2e6afba29''"
proof -
  have p: "hashed_landmark_present (sample_face 100 120)"
    by (simp add: hashed_landmark_present_def hashed_positions_def face_landmarks_def
        getLandmarkPos_def face_defs Let_def)
  have s: "hashed_positions (sample_face 107 115)
             = map (shifted 7 (- 5)) (hashed_positions (sample_face 100 120))"
    by (simp add: hashed_positions_def face_landmarks_def getLandmarkPos_def shifted_def
        face_defs Let_def)
  have b: "hash_width (sample_face 107 115) = hash_width (sample_face 100 120)"
    "hash_height (sample_face 107 115) = hash_height (sample_face 100 120)"
    by (simp_all add: hash_width_def hash_height_def hash_frame_def
        num_or_def truthy_def face_defs Let_def)
  have k: "hash_left (sample_face 107 115) = hash_left (sample_face 100 120) + 7"
    "hash_top (sample_face 107 115) = hash_top (sample_face 100 120) + (- 5)"
    by (simp_all add: hash_left_def hash_top_def hash_frame_def
        num_or_def truthy_def face_defs Let_def)
  have m: "faceCenterX (sample_face 107 115) = faceCenterX (sample_face 100 120) + 7"
    "faceCenterY (sample_face 107 115) = faceCenterY (sample_face 100 120) + (- 5)"
    apply (simp_all add: faceCenterX_def faceCenterY_def hash_width_def hash_height_def
        hash_left_def hash_top_def hash_frame_def num_or_def truthy_def face_defs Let_def)
    apply (simp_all add: fl_eval)
    done
  have c: "smilingProbability (sample_face 107 115) = smilingProbability (sample_face 100 120)"
    "headEulerAngleY (sample_face 107 115) = headEulerAngleY (sample_face 100 120)"
    by (simp_all add: face_defs)
  have "landmarks (sample_face 100 120) \<noteq> None" by (simp add: sample_face_def)
  then have e: "generateFaceId (Some (sample_face 100 120)) None None = Inr ''2e6afba29''"
    by (simp add: generateFaceId_def sample_id)
  from faceId_translation_invariant [OF p b m s c, of None None None None] e p s k m
  show ?thesis by simp
qed


subsection \<open>The verification payloads\<close>

lemmas capture_defs = no_capture_def embedded_capture_def image_capture_def bare_capture_def
  ready_env_def usable_embedding_def image_of_def landmarks_of_def nonempty_def

lemma attendance_payload_ordering:
  assumes "handleFaceCaptured r env = Inr p"
  shows "Some (ap_faceId p) = cr_faceId r \<and> ap_fingerprintPublicKey p = env_fingerprint env
     \<and> ap_faceEmbedding p = usable_embedding (cr_faceEmbedding r)
     \<and> ap_faceImage p = (if usable_embedding (cr_faceEmbedding r) = None then image_of r else None)
     \<and> ap_faceLandmarks p
         = (if usable_embedding (cr_faceEmbedding r) = None \<and> image_of r = None
            then landmarks_of r else None)"
  using assms
  by (auto simp add: handleFaceCaptured_def nonempty_def Let_def
      split: if_splits option.splits prod.splits)

text \<open>
  Claim C2 fails on the code for biometric logins. \<^verbatim>\<open>loginWithFaceRecognition\<close> composes
  the payload as the claim says (embedding, else image, else landmarks; the faceId and the
  stored key always added), but \<^verbatim>\<open>authAPI.loginWithBiometric\<close> copies only one of
  embedding, faceId and image into the request body, in that order. With an embedding the
  faceId is dropped from the request; without an embedding the image is dropped in favour
  of the faceId.
\<close>

theorem login_request_drops_evidence:
  "faceLoginPayload True (Some ''2e6afba29'') (Some embedded_capture) (Some ''KEY'')
     = Inr (no_login_data\<lparr>bl_faceEmbedding := Some [Some 1, Some (- 2), Some 3],
              bl_fingerprintPublicKey := Some ''KEY'', bl_faceId := Some ''2e6afba29''\<rparr>)
   \<and> faceLoginRequest True (Some ''2e6afba29'') (Some embedded_capture) (Some ''KEY'')
     = Inr (no_login_data\<lparr>bl_faceEmbedding := Some [Some 1, Some (- 2), Some 3],
              bl_fingerprintPublicKey := Some ''KEY''\<rparr>)
   \<and> faceLoginPayload True (Some ''2e6afba29'') (Some image_capture) (Some ''KEY'')
     = Inr (no_login_data\<lparr>bl_faceImage := Some ''data:image/jpeg;base64,AAAA'',
              bl_fingerprintPublicKey := Some ''KEY'', bl_faceId := Some ''2e6afba29''\<rparr>)
   \<and> faceLoginRequest True (Some ''2e6afba29'') (Some image_capture) (Some ''KEY'')
     = Inr (no_login_data\<lparr>bl_faceId := Some ''2e6afba29'',
              bl_fingerprintPublicKey := Some ''KEY''\<rparr>)"
  by (simp add: faceLoginRequest_def faceLoginPayload_def cleanData_def capture_defs
      no_login_data_def Let_def)

text \<open>
  Claim C3, as stated, fails for the attendance request: the check-in modal guards on the
  faceId, not on the face evidence. A capture result with a faceId but no embedding, no
  image and no landmarks is submitted.
\<close>

theorem checkin_without_evidence_counterexample:
  "\<not> has_face_evidence (Some bare_capture)
   \<and> handleFaceCaptured bare_capture ready_env
     = Inr \<lparr>ap_latitude = 25, ap_longitude = 45,
            ap_address = ''25.000000, 45.000000'', ap_faceIdVerified = True,
            ap_faceId = ''2e6afba29'', ap_fingerprintPublicKey = Some ''KEY'',
            ap_faceEmbedding = None, ap_faceImage = None, ap_faceLandmarks = None\<rparr>"
proof -
  have t: "toFixed 6 25 = ''25.000000''" "toFixed 6 45 = ''45.000000''"
    by (simp_all add: fixed_eval)
  show ?thesis
    by (simp add: has_face_evidence_def handleFaceCaptured_def capture_defs t)
qed

text \<open>
  Claim C3, amended. For every face-login attempt in which no face evidence is present
  (no non-empty embedding, no image, no landmarks), \<^verbatim>\<open>loginWithFaceRecognition\<close> throws
  before any request is made, so nothing reaches \<^verbatim>\<open>authAPI.loginWithBiometric\<close>; a
  payload it does pass on comes from a capture with face evidence. The attendance
  check-in aborts before any request when the capture result has no faceId.
\<close>

theorem no_evidence_no_login_request:
  "(\<not> has_face_evidence c \<longrightarrow>
       isl (faceLoginPayload faceDetected currentFaceId c storedKey)
       \<and> isl (faceLoginRequest faceDetected currentFaceId c storedKey)
       \<and> (faceDetected \<and> nonempty currentFaceId \<longrightarrow>
            faceLoginPayload faceDetected currentFaceId c storedKey = Inl NoFaceData))
   \<and> (faceLoginPayload faceDetected currentFaceId c storedKey = Inr p \<longrightarrow> has_face_evidence c)
   \<and> (\<not> nonempty (cr_faceId r) \<longrightarrow> handleFaceCaptured r env = Inl FaceIdNotFound)"
proof -
  have a: "\<not> has_face_evidence c \<Longrightarrow>
      faceLoginPayload faceDetected currentFaceId c storedKey
        = (if \<not> faceDetected then Inl FaceNotDetected
           else if \<not> nonempty currentFaceId then Inl NoCurrentFaceId else Inl NoFaceData)"
    by (cases c) (auto simp add: has_face_evidence_def faceLoginPayload_def Let_def
        split: option.splits)
  have b: "\<not> nonempty (cr_faceId r) \<Longrightarrow> handleFaceCaptured r env = Inl FaceIdNotFound"
    by (simp add: handleFaceCaptured_def)
  from a b show ?thesis
    by (cases "has_face_evidence c") (auto simp add: faceLoginRequest_def split: if_splits)
qed

theorem no_evidence_no_login_request_witness:
  "\<not> has_face_evidence (Some bare_capture)
   \<and> faceLoginPayload True (Some ''2e6afba29'') (Some bare_capture) (Some ''KEY'') = Inl NoFaceData
   \<and> isl (faceLoginRequest True (Some ''2e6afba29'') (Some bare_capture) (Some ''KEY''))
   \<and> handleFaceCaptured no_capture ready_env = Inl FaceIdNotFound"
proof -
  have e: "\<not> has_face_evidence (Some bare_capture)"
    by (simp add: has_face_evidence_def capture_defs)
  have n: "\<not> nonempty (cr_faceId no_capture)" by (simp add: capture_defs)
  from no_evidence_no_login_request
         [of "Some bare_capture" True "Some ''2e6afba29''" "Some ''KEY''" undefined
             no_capture ready_env]
       e n
  show ?thesis by (simp add: nonempty_def)
qed


subsection \<open>The device credential\<close>

lemma staged_screen_eq:
  "staged_screen = fresh_screen\<lparr>fingerprintPublicKey := Some ''NEWKEY'',
                                 fingerprintCompleted := True\<rparr>"
  by (simp add: staged_screen_def handleEnableBiometric_def fresh_screen_def nonempty_def
      trim_def is_space_def Let_def)

lemma stage_staged_screen:
  "stage duplicate_face_backend staged_screen
     = Submit \<lparr>rp_registration = new_account, rp_fingerprintPublicKey = ''NEWKEY'',
                rp_faceId = ''2e6afba29'', rp_faceEmbedding = None\<rparr>"
  unfolding staged_screen_eq
  by (simp add: stage_def enrollment_faceId_def fresh_screen_def nonempty_def trim_def
      is_space_def Let_def)

text \<open>
  Claim C1. Whenever an enrollment attempt reaches the backend (\<open>stage\<close> ends in
  \<open>Submit\<close>) and the backend answers with an error status, which is how a duplicate face,
  a duplicate credential or an already used device is reported,
  \<^verbatim>\<open>handleFaceCaptureComplete\<close> writes nothing: storage and component state are what
  they were, so the stored \<^verbatim>\<open>fingerprintPublicKey\<close> is the old one, also after trimming.
  \<^verbatim>\<open>handleEnableBiometric\<close>, which generates the new credential, never writes to storage
  either: the new key lives in the component state only.
\<close>

theorem conflict_preserves_credential:
  assumes "stage env st = Submit payload"
    and "ee_backend env payload = Rejected status msg"
  shows "handleFaceCaptureComplete env st store = (st, store, Preserved)
     \<and> map_option trim (fst (snd (handleFaceCaptureComplete env st store)) ''fingerprintPublicKey'')
         = map_option trim (store ''fingerprintPublicKey'')
     \<and> fst (snd (handleEnableBiometric authOk publicKey st0 store)) = store"
proof -
  have "handleFaceCaptureComplete env st store = (st, store, Preserved)"
    using assms by (simp add: handleFaceCaptureComplete_def)
  moreover have "fst (snd (handleEnableBiometric authOk publicKey st0 store)) = store"
    by (simp add: handleEnableBiometric_def Let_def)
  ultimately show ?thesis by simp
qed

theorem conflict_preserves_credential_witness:
  "fingerprintPublicKey staged_screen = Some ''NEWKEY''
   \<and> handleFaceCaptureComplete duplicate_face_backend staged_screen enrolled_storage
       = (staged_screen, enrolled_storage, Preserved)
   \<and> map_option trim
        (fst (snd (handleFaceCaptureComplete duplicate_face_backend staged_screen enrolled_storage))
           ''fingerprintPublicKey'')
       = Some ''OLDKEY''"
proof -
  have b: "ee_backend duplicate_face_backend
             \<lparr>rp_registration = new_account, rp_fingerprintPublicKey = ''NEWKEY'',
              rp_faceId = ''2e6afba29'', rp_faceEmbedding = None\<rparr>
           = Rejected 409 ''duplicate-face''"
    by (simp add: duplicate_face_backend_def)
  have k: "fingerprintPublicKey staged_screen = Some ''NEWKEY''"
    by (simp add: staged_screen_eq)
  have o: "map_option trim (enrolled_storage ''fingerprintPublicKey'') = Some ''OLDKEY''"
    by (simp add: enrolled_storage_def trim_def is_space_def)
  from conflict_preserves_credential [OF stage_staged_screen b, of enrolled_storage] k o
  show ?thesis by simp
qed


end
